theory Spec2Isabelle
  imports Complex_Main
begin

section \<open>Common data: identifiers, SQL values, errors\<close>

text \<open>
  The program is a set of PostgreSQL migrations (PL/pgSQL functions and views) for a
  purchasing workflow. Tables are modelled as lists of rows, a nullable column as an
  \<open>option\<close>, \<open>numeric\<close> as \<open>rat\<close>, \<open>uuid\<close> and \<open>timestamptz\<close> as \<open>nat\<close>,
  \<open>RAISE EXCEPTION\<close> as the \<open>Inl\<close> branch of a sum carrying the message text of the
  source, \<open>now()\<close> and \<open>auth.uid()\<close> as explicit parameters.
\<close>

type_synonym uuid = nat
type_synonym timestamptz = nat
type_synonym numeric = rat

datatype error_kind =
  NotFound | InvalidState | ValidationError | AuthorizationError | ConflictError | DatatypeMismatch

type_synonym error = "error_kind \<times> string"

text \<open>SQL \<open>coalesce(x, d)\<close> with a non-null default.\<close>

definition coalesce :: "'a option \<Rightarrow> 'a \<Rightarrow> 'a" where
  "coalesce x d = (case x of None \<Rightarrow> d | Some v \<Rightarrow> v)"

text \<open>SQL \<open>coalesce(x, y)\<close> where the fallback is itself nullable (a column).\<close>

definition coalesce_opt :: "'a option \<Rightarrow> 'a option \<Rightarrow> 'a option" where
  "coalesce_opt x y = (case x of None \<Rightarrow> y | Some v \<Rightarrow> Some v)"

text \<open>SQL \<open>sum(x)\<close>: nulls are skipped, the sum of no value is null.\<close>

definition sql_sum :: "numeric option list \<Rightarrow> numeric option" where
  "sql_sum xs = (case List.map_filter id xs of [] \<Rightarrow> None | v # vs \<Rightarrow> Some (sum_list (v # vs)))"

section \<open>Profiles and configuration\<close>

record profile =
  profile_id :: uuid
  profile_role :: string

record app_config_row =
  cfg_key :: string
  cfg_value :: numeric

text \<open>\<open>select role from profiles where id = p_actor_id\<close>; null when there is no row.\<close>

definition role_of :: "profile list \<Rightarrow> uuid option \<Rightarrow> string option" where
  "role_of profiles p_actor_id =
     (case p_actor_id of None \<Rightarrow> None
      | Some a \<Rightarrow> map_option profile_role (find (\<lambda>p. profile_id p = a) profiles))"

text \<open>
  \<open>get_pr_approval_threshold\<close> (migration 0009): the value stored under
  \<open>PR_APPROVAL_THRESHOLD\<close>, null when the row is absent. The column is text cast to
  numeric; the model stores the number.
\<close>

definition get_pr_approval_threshold :: "app_config_row list \<Rightarrow> numeric option" where
  "get_pr_approval_threshold cfg =
     map_option cfg_value (find (\<lambda>r. cfg_key r = ''PR_APPROVAL_THRESHOLD'') cfg)"

section \<open>Authorization gate\<close>

text \<open>
  \<open>can_approve_pr(p_actor_id, p_pr_total)\<close> of migration 0009. A comparison with a
  null threshold is null, which an \<open>if\<close> treats as not true.
\<close>

definition can_approve_pr :: "profile list \<Rightarrow> app_config_row list \<Rightarrow> uuid option \<Rightarrow> numeric option \<Rightarrow> bool" where
  "can_approve_pr profiles cfg p_actor_id p_pr_total =
     (let v_threshold = get_pr_approval_threshold cfg;
          v_role = role_of profiles p_actor_id
      in case v_role of
           None \<Rightarrow> False
         | Some r \<Rightarrow>
             if (case v_threshold of None \<Rightarrow> False | Some t \<Rightarrow> coalesce p_pr_total 0 \<ge> t)
             then r \<in> set [''executive'', ''accounting'', ''admin'', ''commandant'']
             else r \<in> set [''ops'', ''executive'', ''accounting'', ''admin'', ''commandant''])"

section \<open>Purchase requests: tables\<close>

datatype pr_status = draft | submitted | approved | rejected | cancelled | fulfilled

fun pr_status_text :: "pr_status \<Rightarrow> string" where
  "pr_status_text draft = ''draft''"
| "pr_status_text submitted = ''submitted''"
| "pr_status_text approved = ''approved''"
| "pr_status_text rejected = ''rejected''"
| "pr_status_text cancelled = ''cancelled''"
| "pr_status_text fulfilled = ''fulfilled''"

text \<open>A \<open>jsonb\<close> value, as far as the functions build one for the log's metadata.\<close>

datatype jval =
    JNull
  | JText string
  | JNum numeric
  | JBool bool
  | JArr "jval list"
  | JObj "(string \<times> jval) list"

definition j_text :: "string option \<Rightarrow> jval" where
  "j_text x = (case x of None \<Rightarrow> JNull | Some v \<Rightarrow> JText v)"

definition j_num :: "numeric option \<Rightarrow> jval" where
  "j_num x = (case x of None \<Rightarrow> JNull | Some v \<Rightarrow> JNum v)"

definition j_id :: "nat option \<Rightarrow> jval" where
  "j_id x = (case x of None \<Rightarrow> JNull | Some v \<Rightarrow> JNum (of_nat v))"

record purchase_request =
  pr_id :: uuid
  pr_project_id :: "uuid option"
  pr_number :: string
  pr_status :: pr_status
  pr_needed_by_date :: "nat option"
  pr_priority :: "string option"
  pr_requested_by :: "uuid option"
  pr_notes :: "string option"
  pr_approved_by :: "uuid option"
  pr_approved_at :: "timestamptz option"
  pr_created_by :: "uuid option"
  pr_updated_by :: "uuid option"
  pr_updated_at :: timestamptz

record purchase_request_line =
  prl_id :: uuid
  prl_purchase_request_id :: uuid
  prl_project_id :: "uuid option"
  prl_catalog_item_id :: "uuid option"
  prl_description :: string
  prl_qty :: numeric
  prl_uom :: "string option"
  prl_est_unit_cost :: "numeric option"
  prl_sov_item_id :: "uuid option"
  prl_timeline_task_id :: "uuid option"
  prl_sort_order :: int
  prl_is_active :: bool
  prl_created_by :: "uuid option"
  prl_updated_by :: "uuid option"
  prl_updated_at :: timestamptz

record status_log =
  log_entity_type :: string
  log_entity_id :: uuid
  log_project_id :: "uuid option"
  log_from_status :: "string option"
  log_to_status :: "string option"
  log_message :: string
  log_metadata :: jval
  log_created_by :: "uuid option"
  log_created_at :: timestamptz

record pr_number_counter =
  cnt_year :: int
  cnt_last_seq :: int
  cnt_updated_at :: timestamptz

datatype receipt_status = pending | received | reconciled | rcancelled

fun receipt_status_text :: "receipt_status \<Rightarrow> string" where
  "receipt_status_text pending = ''pending''"
| "receipt_status_text received = ''received''"
| "receipt_status_text reconciled = ''reconciled''"
| "receipt_status_text rcancelled = ''cancelled''"

record receipt =
  rc_id :: uuid
  rc_project_id :: "uuid option"
  rc_vendor_id :: "uuid option"
  rc_purchase_order_id :: "uuid option"
  rc_receipt_number :: string
  rc_status :: receipt_status
  rc_received_at :: "timestamptz option"
  rc_received_by :: "uuid option"
  rc_location :: "string option"
  rc_notes :: "string option"
  rc_created_by :: "uuid option"
  rc_updated_by :: "uuid option"
  rc_updated_at :: timestamptz

record receipt_line =
  rl_id :: uuid
  rl_receipt_id :: uuid
  rl_purchase_order_line_id :: "uuid option"
  rl_description :: string
  rl_qty_received :: numeric

text \<open>
  The database the actor-based functions (migrations 0005, 0007, 0009) work on.
  The \<open>create table\<close> statements of the purchasing tables are not part of the
  repository: the columns are the ones the functions name, \<open>id_supply\<close> stands for the
  \<open>id\<close> columns' generated default, and \<open>receipt_number_seq\<close> is the last value of
  the sequence of that name. Columns that every insert fills through \<open>coalesce\<close> with a
  constant (\<open>qty\<close>, \<open>is_active\<close>, \<open>sort_order\<close>, \<open>qty_received\<close>) are taken as
  not null; checks that only those missing statements could add (foreign keys, range
  checks) are not modelled.
\<close>

record db =
  profiles :: "profile list"
  app_config :: "app_config_row list"
  pr_number_counters :: "pr_number_counter list"
  purchase_requests :: "purchase_request list"
  purchase_request_lines :: "purchase_request_line list"
  receipts :: "receipt list"
  receipt_lines :: "receipt_line list"
  receipt_number_seq :: int
  status_logs :: "status_log list"
  id_supply :: uuid

text \<open>
  What a call sees of its session and transaction: \<open>auth.uid()\<close>, \<open>now()\<close>,
  \<open>extract(year from now())\<close> and \<open>to_char(now(), 'YYYYMMDD')\<close>.
\<close>

record ctx =
  auth_uid :: "uuid option"
  now :: timestamptz
  now_year :: int
  now_yyyymmdd :: string

section \<open>Helpers of the write path\<close>

definition assert_actor_exists :: "db \<Rightarrow> uuid option \<Rightarrow> error option" where
  "assert_actor_exists s p_actor_id =
     (case p_actor_id of
        None \<Rightarrow> Some (ValidationError, ''actor_id is required'')
      | Some a \<Rightarrow>
          if a \<in> set (map profile_id (profiles s)) then None
          else Some (NotFound, ''actor_id % does not exist in profiles''))"

definition insert_status_log ::
  "ctx \<Rightarrow> string \<Rightarrow> uuid \<Rightarrow> uuid option \<Rightarrow> string option \<Rightarrow> string option \<Rightarrow> string \<Rightarrow> jval
     \<Rightarrow> uuid option \<Rightarrow> db \<Rightarrow> db" where
  "insert_status_log c p_entity_type p_entity_id p_project_id p_from_status p_to_status
       p_message p_metadata p_created_by s =
     s\<lparr>status_logs := status_logs s @
        [\<lparr>log_entity_type = p_entity_type, log_entity_id = p_entity_id,
          log_project_id = p_project_id, log_from_status = p_from_status,
          log_to_status = p_to_status, log_message = p_message,
          log_metadata = p_metadata, log_created_by = p_created_by,
          log_created_at = now c\<rparr>]\<rparr>"

text \<open>
  The row trigger \<open>set_updated_at_and_by\<close> (before update): \<open>updated_at\<close> becomes
  \<open>now()\<close>; \<open>updated_by\<close> becomes \<open>auth.uid()\<close> when there is one, else the value
  the statement wrote, else the old one. This is the value it leaves in \<open>updated_by\<close>.
\<close>

definition set_updated_at_and_by :: "ctx \<Rightarrow> uuid option \<Rightarrow> uuid option \<Rightarrow> uuid option" where
  "set_updated_at_and_by c new_updated_by old_updated_by =
     (case auth_uid c of
        Some a \<Rightarrow> Some a
      | None \<Rightarrow> coalesce_opt new_updated_by old_updated_by)"

definition select_pr :: "db \<Rightarrow> uuid option \<Rightarrow> purchase_request option" where
  "select_pr s p_pr_id =
     (case p_pr_id of None \<Rightarrow> None
      | Some i \<Rightarrow> find (\<lambda>r. pr_id r = i) (purchase_requests s))"

text \<open>\<open>update purchase_requests set ... where id = i\<close>.\<close>

definition update_pr :: "uuid \<Rightarrow> (purchase_request \<Rightarrow> purchase_request) \<Rightarrow> db \<Rightarrow> db" where
  "update_pr i f s =
     s\<lparr>purchase_requests := map (\<lambda>r. if pr_id r = i then f r else r) (purchase_requests s)\<rparr>"

text \<open>\<open>btrim(s)\<close>: spaces removed at both ends.\<close>

definition btrim :: "string \<Rightarrow> string" where
  "btrim s = rev (dropWhile (\<lambda>c. c = CHR '' '') (rev (dropWhile (\<lambda>c. c = CHR '' '') s)))"

section \<open>Numbering (migration 0009)\<close>

text \<open>\<open>n::text\<close> for an integer, and \<open>lpad(s, n, c)\<close>, which also cuts a longer string.\<close>

definition digit_char :: "nat \<Rightarrow> char" where
  "digit_char d = ''0123456789'' ! d"

function dec_text :: "nat \<Rightarrow> string" where
  "dec_text n = (if n < 10 then [digit_char n] else dec_text (n div 10) @ [digit_char (n mod 10)])"
  by pat_completeness auto
termination
  by (relation "measure id") auto

declare dec_text.simps [simp del]

definition int_text :: "int \<Rightarrow> string" where
  "int_text i = (if i < 0 then CHR ''-'' # dec_text (nat (- i)) else dec_text (nat i))"

definition lpad :: "string \<Rightarrow> nat \<Rightarrow> char \<Rightarrow> string" where
  "lpad s n c = (if n \<le> length s then take n s else replicate (n - length s) c @ s)"

definition int4_max :: int where
  "int4_max = 2147483647"

text \<open>
  \<open>next_pr_number()\<close>: the year's row is created with 0 when missing, then incremented;
  \<open>last_seq\<close> is an \<open>int\<close> column, whose overflow raises.
\<close>

definition next_pr_number :: "ctx \<Rightarrow> db \<Rightarrow> error + (string \<times> db)" where
  "next_pr_number c s =
     (let v_year = now_year c;
          fresh = \<lparr>cnt_year = v_year, cnt_last_seq = 0, cnt_updated_at = now c\<rparr>;
          inserted = (case find (\<lambda>r. cnt_year r = v_year) (pr_number_counters s) of
                        None \<Rightarrow> pr_number_counters s @ [fresh]
                      | Some r \<Rightarrow> pr_number_counters s);
          row = (case find (\<lambda>r. cnt_year r = v_year) (pr_number_counters s) of
                   None \<Rightarrow> fresh
                 | Some r \<Rightarrow> r);
          v_next = cnt_last_seq row + 1
      in if int4_max < v_next then Inl (ValidationError, ''integer out of range'')
         else Inr (''PR-'' @ int_text v_year @ ''-'' @ lpad (int_text v_next) 4 (CHR ''0''),
                   s\<lparr>pr_number_counters :=
                        map (\<lambda>r. if cnt_year r = v_year
                                  then r\<lparr>cnt_last_seq := cnt_last_seq r + 1, cnt_updated_at := now c\<rparr>
                                  else r) inserted\<rparr>))"

section \<open>Request totals and the gate of migration 0007\<close>

text \<open>
  Modelled from the spec: the column \<open>est_ext_cost\<close> is declared in a table definition
  that is missing; the spec derives the extended cost as quantity times estimated unit cost.
\<close>

definition est_ext_cost :: "purchase_request_line \<Rightarrow> numeric option" where
  "est_ext_cost l = map_option (\<lambda>c. prl_qty l * c) (prl_est_unit_cost l)"

definition pr_est_total :: "db \<Rightarrow> uuid \<Rightarrow> numeric" where
  "pr_est_total s p =
     coalesce (sql_sum (map (\<lambda>l. Some (coalesce (est_ext_cost l) 0))
                 (filter (\<lambda>l. prl_purchase_request_id l = p \<and> prl_is_active l)
                    (purchase_request_lines s)))) 0"

text \<open>
  \<open>can_approve_pr(p_pr_id)\<close> of migration 0007 reads the role of \<open>auth.uid()\<close> and the
  total of the request's active lines itself; the threshold is the literal 1000.
\<close>

definition can_approve_pr_0007 :: "ctx \<Rightarrow> db \<Rightarrow> uuid option \<Rightarrow> bool" where
  "can_approve_pr_0007 c s p_pr_id =
     (let v_role = role_of (profiles s) (auth_uid c);
          v_total = coalesce (sql_sum (map est_ext_cost
                      (filter prl_is_active
                         (filter (\<lambda>l. Some (prl_purchase_request_id l) = p_pr_id)
                            (purchase_request_lines s))))) 0
      in if 1000 \<le> v_total
         then coalesce (map_option
                (\<lambda>r. r \<in> set [''ops'', ''executive'', ''accounting'', ''admin'', ''commandant'']) v_role) False
         else coalesce (map_option
                (\<lambda>r. r \<in> set [''purchasing'', ''ops'', ''executive'', ''accounting'', ''admin'',
                               ''commandant'']) v_role) False)"

section \<open>Purchase request lifecycle (migration 0009)\<close>

definition create_purchase_request ::
  "ctx \<Rightarrow> uuid option \<Rightarrow> uuid option \<Rightarrow> nat option \<Rightarrow> string option \<Rightarrow> string option \<Rightarrow> db
     \<Rightarrow> error + (purchase_request \<times> db)" where
  "create_purchase_request c p_project_id p_actor_id p_needed_by_date p_priority p_notes s =
     (case assert_actor_exists s p_actor_id of
        Some e \<Rightarrow> Inl e
      | None \<Rightarrow>
          if p_project_id = None then Inl (ValidationError, ''project_id is required'')
          else (case next_pr_number c s of
                  Inl e \<Rightarrow> Inl e
                | Inr (v_pr_number, s1) \<Rightarrow>
                    let v_pr = \<lparr>pr_id = id_supply s1, pr_project_id = p_project_id,
                                pr_number = v_pr_number, pr_status = draft,
                                pr_needed_by_date = p_needed_by_date, pr_priority = p_priority,
                                pr_requested_by = p_actor_id, pr_notes = p_notes,
                                pr_approved_by = None, pr_approved_at = None,
                                pr_created_by = p_actor_id, pr_updated_by = p_actor_id,
                                pr_updated_at = now c\<rparr>;
                        s2 = s1\<lparr>purchase_requests := purchase_requests s1 @ [v_pr],
                                id_supply := Suc (id_supply s1)\<rparr>
                    in Inr (v_pr,
                         insert_status_log c ''purchase_request'' (pr_id v_pr) (pr_project_id v_pr)
                           None (Some (pr_status_text (pr_status v_pr))) ''PR created''
                           (JObj [(''pr_number'', JText (pr_number v_pr))]) p_actor_id s2)))"

text \<open>The statement resetting an approval, shared by the header and the line functions.\<close>

definition reset_approval :: "ctx \<Rightarrow> uuid option \<Rightarrow> purchase_request \<Rightarrow> purchase_request" where
  "reset_approval c p_actor_id r =
     r\<lparr>pr_status := submitted, pr_approved_by := None, pr_approved_at := None,
       pr_updated_by := set_updated_at_and_by c p_actor_id (pr_updated_by r),
       pr_updated_at := now c\<rparr>"

definition header_changed ::
  "purchase_request \<Rightarrow> nat option \<Rightarrow> string option \<Rightarrow> string option \<Rightarrow> (string \<times> jval) list" where
  "header_changed v_old p_needed_by_date p_priority p_notes =
     (if p_needed_by_date \<noteq> None \<and> p_needed_by_date \<noteq> pr_needed_by_date v_old
      then [(''needed_by_date'', JArr [j_id (pr_needed_by_date v_old), j_id p_needed_by_date])] else []) @
     (if p_priority \<noteq> None \<and> p_priority \<noteq> pr_priority v_old
      then [(''priority'', JArr [j_text (pr_priority v_old), j_text p_priority])] else []) @
     (if p_notes \<noteq> None \<and> p_notes \<noteq> pr_notes v_old
      then [(''notes'', JArr [j_text (pr_notes v_old), j_text p_notes])] else [])"

text \<open>\<open>v_reset\<close>: set in each of the three branches that extend \<open>v_changed\<close>.\<close>

definition header_reset ::
  "purchase_request \<Rightarrow> nat option \<Rightarrow> string option \<Rightarrow> string option \<Rightarrow> bool" where
  "header_reset v_old p_needed_by_date p_priority p_notes =
     ((p_needed_by_date \<noteq> None \<and> p_needed_by_date \<noteq> pr_needed_by_date v_old) \<or>
      (p_priority \<noteq> None \<and> p_priority \<noteq> pr_priority v_old) \<or>
      (p_notes \<noteq> None \<and> p_notes \<noteq> pr_notes v_old))"

definition update_purchase_request_header ::
  "ctx \<Rightarrow> uuid option \<Rightarrow> uuid option \<Rightarrow> nat option \<Rightarrow> string option \<Rightarrow> string option \<Rightarrow> db
     \<Rightarrow> error + (purchase_request \<times> db)" where
  "update_purchase_request_header c p_pr_id p_actor_id p_needed_by_date p_priority p_notes s =
     (case assert_actor_exists s p_actor_id of
        Some e \<Rightarrow> Inl e
      | None \<Rightarrow>
     (case select_pr s p_pr_id of
        None \<Rightarrow> Inl (NotFound, ''PR % not found'')
      | Some v_old \<Rightarrow>
          if pr_status v_old \<notin> set [draft, submitted, approved]
          then Inl (InvalidState, ''PR % cannot be edited in status %'')
          else
            let v_changed = header_changed v_old p_needed_by_date p_priority p_notes;
                v_reset = header_reset v_old p_needed_by_date p_priority p_notes;
                upd = (\<lambda>r. r\<lparr>pr_needed_by_date := coalesce_opt p_needed_by_date (pr_needed_by_date r),
                              pr_priority := coalesce_opt p_priority (pr_priority r),
                              pr_notes := coalesce_opt p_notes (pr_notes r),
                              pr_updated_by := set_updated_at_and_by c p_actor_id (pr_updated_by r),
                              pr_updated_at := now c\<rparr>);
                s1 = update_pr (pr_id v_old) upd s;
                v_new1 = upd v_old
            in if pr_status v_old = approved \<and> v_reset
               then
                 let s2 = update_pr (pr_id v_old) (reset_approval c p_actor_id) s1;
                     v_new = reset_approval c p_actor_id v_new1;
                     s3 = insert_status_log c ''purchase_request'' (pr_id v_new) (pr_project_id v_new)
                            (Some ''approved'') (Some ''submitted'')
                            ''Approval reset due to PR header change''
                            (JObj [(''changed'', JObj v_changed)]) p_actor_id s2
                 in Inr (v_new,
                      insert_status_log c ''purchase_request'' (pr_id v_new) (pr_project_id v_new)
                        None None ''PR header updated''
                        (JObj [(''changed'', JObj v_changed)]) p_actor_id s3)
               else
                 Inr (v_new1,
                   insert_status_log c ''purchase_request'' (pr_id v_new1) (pr_project_id v_new1)
                     None None ''PR header updated''
                     (JObj [(''changed'', JObj v_changed)]) p_actor_id s1)))"

record pr_line_args =
  p_id :: "uuid option"
  p_catalog_item_id :: "uuid option"
  p_description :: "string option"
  p_qty :: "numeric option"
  p_uom :: "string option"
  p_est_unit_cost :: "numeric option"
  p_sov_item_id :: "uuid option"
  p_timeline_task_id :: "uuid option"
  p_sort_order :: "int option"
  p_is_active :: "bool option"

text \<open>
  \<open>select true into v_exists ... where id = p_id and purchase_request_id = ...\<close>, together
  with the row \<open>update ... where id = p_id returning *\<close> then works on.
\<close>

definition existing_line :: "db \<Rightarrow> uuid option \<Rightarrow> uuid \<Rightarrow> purchase_request_line option" where
  "existing_line s line_id request_id =
     (case line_id of
        None \<Rightarrow> None
      | Some i \<Rightarrow>
          if (i, request_id)
               \<in> set (map (\<lambda>l. (prl_id l, prl_purchase_request_id l)) (purchase_request_lines s))
          then find (\<lambda>l. prl_id l = i) (purchase_request_lines s)
          else None)"

definition update_pr_lines :: "uuid \<Rightarrow> (purchase_request_line \<Rightarrow> purchase_request_line) \<Rightarrow> db \<Rightarrow> db" where
  "update_pr_lines i f s =
     s\<lparr>purchase_request_lines := map (\<lambda>l. if prl_id l = i then f l else l) (purchase_request_lines s)\<rparr>"

definition line_metadata :: "purchase_request \<Rightarrow> purchase_request_line \<Rightarrow> jval" where
  "line_metadata v_pr v_line =
     JObj [(''pr_id'', JNum (of_nat (pr_id v_pr))), (''description'', JText (prl_description v_line)),
           (''qty'', JNum (prl_qty v_line)), (''est_unit_cost'', j_num (prl_est_unit_cost v_line))]"

definition upsert_purchase_request_line ::
  "ctx \<Rightarrow> uuid option \<Rightarrow> uuid option \<Rightarrow> pr_line_args \<Rightarrow> db \<Rightarrow> error + (purchase_request_line \<times> db)" where
  "upsert_purchase_request_line c p_purchase_request_id p_actor_id a s =
     (case assert_actor_exists s p_actor_id of
        Some e \<Rightarrow> Inl e
      | None \<Rightarrow>
     (case select_pr s p_purchase_request_id of
        None \<Rightarrow> Inl (NotFound, ''PR % not found'')
      | Some v_pr \<Rightarrow>
          if pr_status v_pr \<notin> set [draft, submitted, approved]
          then Inl (InvalidState, ''PR % lines cannot be edited in status %'')
          else if p_description a = None \<or> btrim (the (p_description a)) = []
          then Inl (ValidationError, ''Line description is required'')
          else if p_qty a = None then Inl (ValidationError, ''qty is required'')
          else
            let (v_line, s1) =
                  (case existing_line s (p_id a) (pr_id v_pr) of
                     Some old \<Rightarrow>
                       let upd = (\<lambda>l. l\<lparr>prl_catalog_item_id := p_catalog_item_id a,
                                         prl_description := the (p_description a),
                                         prl_qty := the (p_qty a),
                                         prl_uom := p_uom a,
                                         prl_est_unit_cost := p_est_unit_cost a,
                                         prl_sov_item_id := p_sov_item_id a,
                                         prl_timeline_task_id := p_timeline_task_id a,
                                         prl_sort_order := coalesce (p_sort_order a) (prl_sort_order l),
                                         prl_is_active := coalesce (p_is_active a) (prl_is_active l),
                                         prl_updated_by := set_updated_at_and_by c p_actor_id (prl_updated_by l),
                                         prl_updated_at := now c\<rparr>);
                           v_line = upd old
                       in (v_line,
                           insert_status_log c ''purchase_request_line'' (prl_id v_line)
                             (pr_project_id v_pr) None None ''PR line updated''
                             (line_metadata v_pr v_line) p_actor_id
                             (update_pr_lines (prl_id old) upd s))
                   | None \<Rightarrow>
                       let v_line = \<lparr>prl_id = id_supply s,
                                      prl_purchase_request_id = pr_id v_pr,
                                      prl_project_id = pr_project_id v_pr,
                                      prl_catalog_item_id = p_catalog_item_id a,
                                      prl_description = the (p_description a),
                                      prl_qty = the (p_qty a),
                                      prl_uom = p_uom a,
                                      prl_est_unit_cost = p_est_unit_cost a,
                                      prl_sov_item_id = p_sov_item_id a,
                                      prl_timeline_task_id = p_timeline_task_id a,
                                      prl_sort_order = coalesce (p_sort_order a) 0,
                                      prl_is_active = coalesce (p_is_active a) True,
                                      prl_created_by = p_actor_id,
                                      prl_updated_by = p_actor_id,
                                      prl_updated_at = now c\<rparr>
                       in (v_line,
                           insert_status_log c ''purchase_request_line'' (prl_id v_line)
                             (pr_project_id v_pr) None None ''PR line created''
                             (line_metadata v_pr v_line) p_actor_id
                             (s\<lparr>purchase_request_lines := purchase_request_lines s @ [v_line],
                                id_supply := Suc (id_supply s)\<rparr>)))
            in if pr_status v_pr = approved
               then Inr (v_line,
                      insert_status_log c ''purchase_request'' (pr_id v_pr) (pr_project_id v_pr)
                        (Some ''approved'') (Some ''submitted'')
                        ''Approval reset due to PR line change''
                        (JObj [(''pr_id'', JNum (of_nat (pr_id v_pr)))]) p_actor_id
                        (update_pr (pr_id v_pr) (reset_approval c p_actor_id) s1))
               else Inr (v_line, s1)))"

definition submit_purchase_request ::
  "ctx \<Rightarrow> uuid option \<Rightarrow> uuid option \<Rightarrow> string option \<Rightarrow> db \<Rightarrow> error + (purchase_request \<times> db)" where
  "submit_purchase_request c p_pr_id p_actor_id p_message s =
     (case assert_actor_exists s p_actor_id of
        Some e \<Rightarrow> Inl e
      | None \<Rightarrow>
     (case select_pr s p_pr_id of
        None \<Rightarrow> Inl (NotFound, ''PR % not found'')
      | Some v_old \<Rightarrow>
          if pr_status v_old = draft
          then
            let upd = (\<lambda>r. r\<lparr>pr_status := submitted,
                              pr_updated_by := set_updated_at_and_by c p_actor_id (pr_updated_by r),
                              pr_updated_at := now c\<rparr>);
                v_new = upd v_old
            in Inr (v_new,
                 insert_status_log c ''purchase_request'' (pr_id v_new) (pr_project_id v_new)
                   (Some ''draft'') (Some ''submitted'') (coalesce p_message ''PR submitted'')
                   (JObj [(''pr_number'', JText (pr_number v_new))]) p_actor_id
                   (update_pr (pr_id v_old) upd s))
          else if pr_status v_old = submitted then Inr (v_old, s)
          else Inl (InvalidState, ''PR % cannot be submitted from status %'')))"

definition approve_purchase_request ::
  "ctx \<Rightarrow> uuid option \<Rightarrow> uuid option \<Rightarrow> string option \<Rightarrow> db \<Rightarrow> error + (purchase_request \<times> db)" where
  "approve_purchase_request c p_pr_id p_actor_id p_message s =
     (case assert_actor_exists s p_actor_id of
        Some e \<Rightarrow> Inl e
      | None \<Rightarrow>
     (case select_pr s p_pr_id of
        None \<Rightarrow> Inl (NotFound, ''PR % not found'')
      | Some v_old \<Rightarrow>
          if pr_status v_old \<noteq> submitted
          then Inl (InvalidState, ''PR % must be submitted before approval (current: %)'')
          else
            let v_total = pr_est_total s (pr_id v_old);
                v_threshold = get_pr_approval_threshold (app_config s)
            in if \<not> can_approve_pr (profiles s) (app_config s) p_actor_id (Some v_total)
               then Inl (AuthorizationError, ''Not authorized to approve PR % (total: %, threshold: %)'')
               else
                 let upd = (\<lambda>r. r\<lparr>pr_status := approved, pr_approved_by := p_actor_id,
                                   pr_approved_at := Some (now c),
                                   pr_updated_by := set_updated_at_and_by c p_actor_id (pr_updated_by r),
                                   pr_updated_at := now c\<rparr>);
                     v_new = upd v_old
                 in Inr (v_new,
                      insert_status_log c ''purchase_request'' (pr_id v_new) (pr_project_id v_new)
                        (Some ''submitted'') (Some ''approved'') (coalesce p_message ''PR approved'')
                        (JObj [(''pr_number'', JText (pr_number v_new)), (''est_total'', JNum v_total),
                               (''threshold'', j_num v_threshold)]) p_actor_id
                        (update_pr (pr_id v_old) upd s))))"

definition reject_purchase_request ::
  "ctx \<Rightarrow> uuid option \<Rightarrow> uuid option \<Rightarrow> string option \<Rightarrow> db \<Rightarrow> error + (purchase_request \<times> db)" where
  "reject_purchase_request c p_pr_id p_actor_id p_message s =
     (case assert_actor_exists s p_actor_id of
        Some e \<Rightarrow> Inl e
      | None \<Rightarrow>
     (case select_pr s p_pr_id of
        None \<Rightarrow> Inl (NotFound, ''PR % not found'')
      | Some v_old \<Rightarrow>
          if pr_status v_old \<notin> set [submitted, approved]
          then Inl (InvalidState, ''PR % cannot be rejected from status %'')
          else
            let v_total = pr_est_total s (pr_id v_old)
            in if \<not> can_approve_pr (profiles s) (app_config s) p_actor_id (Some v_total)
               then Inl (AuthorizationError, ''Not authorized to reject PR % (total: %)'')
               else
                 let upd = (\<lambda>r. r\<lparr>pr_status := rejected, pr_approved_by := None,
                                   pr_approved_at := None,
                                   pr_updated_by := set_updated_at_and_by c p_actor_id (pr_updated_by r),
                                   pr_updated_at := now c\<rparr>);
                     v_new = upd v_old
                 in Inr (v_new,
                      insert_status_log c ''purchase_request'' (pr_id v_new) (pr_project_id v_new)
                        (Some (pr_status_text (pr_status v_old))) (Some ''rejected'')
                        (coalesce p_message ''PR rejected'')
                        (JObj [(''pr_number'', JText (pr_number v_new)), (''est_total'', JNum v_total)])
                        p_actor_id
                        (update_pr (pr_id v_old) upd s))))"

section \<open>Purchase request functions of the earlier migrations\<close>

text \<open>
  \<open>select count(*) ... where purchase_request_id = i and coalesce(is_active, true) = true\<close>.
\<close>

definition active_line_count :: "db \<Rightarrow> uuid \<Rightarrow> nat" where
  "active_line_count s i =
     length (filter (\<lambda>l. prl_purchase_request_id l = i \<and> prl_is_active l)
               (purchase_request_lines s))"

text \<open>\<open>submit_purchase_request\<close> of migration 0005 (only drafts, at least one active line).\<close>

definition submit_purchase_request_0005 ::
  "ctx \<Rightarrow> uuid option \<Rightarrow> uuid option \<Rightarrow> string option \<Rightarrow> db \<Rightarrow> error + (purchase_request \<times> db)" where
  "submit_purchase_request_0005 c p_purchase_request_id p_actor_id p_message s =
     (case assert_actor_exists s p_actor_id of
        Some e \<Rightarrow> Inl e
      | None \<Rightarrow>
     (case select_pr s p_purchase_request_id of
        None \<Rightarrow> Inl (NotFound, ''PR % not found'')
      | Some v_old \<Rightarrow>
          if pr_status v_old \<noteq> draft then Inl (InvalidState, ''Only draft PRs can be submitted'')
          else
            let v_lines_count = active_line_count s (pr_id v_old)
            in if v_lines_count \<le> 0 then Inl (ValidationError, ''Cannot submit PR with zero lines'')
               else
                 let upd = (\<lambda>r. r\<lparr>pr_status := submitted,
                                   pr_updated_by := set_updated_at_and_by c p_actor_id (pr_updated_by r),
                                   pr_updated_at := now c\<rparr>);
                     v_new = upd v_old
                 in Inr (v_new,
                      insert_status_log c ''purchase_request'' (pr_id v_new) (pr_project_id v_new)
                        (Some (pr_status_text (pr_status v_old))) (Some (pr_status_text (pr_status v_new)))
                        (coalesce p_message ''PR submitted'')
                        (JObj [(''pr_number'', JText (pr_number v_new))]) p_actor_id
                        (update_pr (pr_id v_old) upd s))))"

text \<open>
  \<open>approve_purchase_request(..., p_approve, ...)\<close> of migration 0005: one function for
  approval and rejection. A null \<open>p_approve\<close> takes the \<open>else\<close> of the \<open>case\<close>.
\<close>

definition approve_purchase_request_0005 ::
  "ctx \<Rightarrow> uuid option \<Rightarrow> uuid option \<Rightarrow> bool option \<Rightarrow> string option \<Rightarrow> db
     \<Rightarrow> error + (purchase_request \<times> db)" where
  "approve_purchase_request_0005 c p_purchase_request_id p_actor_id p_approve p_message s =
     (case assert_actor_exists s p_actor_id of
        Some e \<Rightarrow> Inl e
      | None \<Rightarrow>
     (case select_pr s p_purchase_request_id of
        None \<Rightarrow> Inl (NotFound, ''PR % not found'')
      | Some v_old \<Rightarrow>
          if pr_status v_old \<noteq> submitted
          then Inl (InvalidState, ''Only submitted PRs can be approved/rejected'')
          else
            let v_to_status = (if p_approve = Some True then approved else rejected);
                upd = (\<lambda>r. r\<lparr>pr_status := v_to_status, pr_approved_by := p_actor_id,
                              pr_approved_at := Some (now c),
                              pr_updated_by := set_updated_at_and_by c p_actor_id (pr_updated_by r),
                              pr_updated_at := now c\<rparr>);
                v_new = upd v_old
            in Inr (v_new,
                 insert_status_log c ''purchase_request'' (pr_id v_new) (pr_project_id v_new)
                   (Some (pr_status_text (pr_status v_old))) (Some (pr_status_text (pr_status v_new)))
                   (coalesce p_message (if p_approve = Some True then ''PR approved'' else ''PR rejected''))
                   (JObj [(''pr_number'', JText (pr_number v_new))]) p_actor_id
                   (update_pr (pr_id v_old) upd s))))"

text \<open>\<open>update_purchase_request_header\<close> of migration 0007 (no approval reset).\<close>

definition update_purchase_request_header_0007 ::
  "ctx \<Rightarrow> uuid option \<Rightarrow> uuid option \<Rightarrow> nat option \<Rightarrow> string option \<Rightarrow> string option \<Rightarrow> db
     \<Rightarrow> error + (purchase_request \<times> db)" where
  "update_purchase_request_header_0007 c p_purchase_request_id p_actor_id p_needed_by_date
       p_priority p_notes s =
     (case assert_actor_exists s p_actor_id of
        Some e \<Rightarrow> Inl e
      | None \<Rightarrow>
     (case select_pr s p_purchase_request_id of
        None \<Rightarrow> Inl (NotFound, ''PR % not found'')
      | Some v_old \<Rightarrow>
          if pr_status v_old \<in> set [cancelled, fulfilled]
          then Inl (InvalidState, ''PR % is not editable in status %'')
          else
            let upd = (\<lambda>r. r\<lparr>pr_needed_by_date := coalesce_opt p_needed_by_date (pr_needed_by_date r),
                              pr_priority := coalesce_opt p_priority (pr_priority r),
                              pr_notes := coalesce_opt p_notes (pr_notes r),
                              pr_updated_by := set_updated_at_and_by c p_actor_id (pr_updated_by r),
                              pr_updated_at := now c\<rparr>);
                v_new = upd v_old
            in Inr (v_new,
                 insert_status_log c ''purchase_request'' (pr_id v_new) (pr_project_id v_new)
                   None None ''PR header updated''
                   (JObj [(''status_at_edit'', JText (pr_status_text (pr_status v_old))),
                          (''needed_by_date_old'', j_id (pr_needed_by_date v_old)),
                          (''needed_by_date_new'', j_id (pr_needed_by_date v_new)),
                          (''priority_old'', j_text (pr_priority v_old)),
                          (''priority_new'', j_text (pr_priority v_new))]) p_actor_id
                   (update_pr (pr_id v_old) upd s))))"

definition line_snapshot :: "purchase_request_line \<Rightarrow> jval" where
  "line_snapshot l =
     JObj [(''description'', JText (prl_description l)), (''qty'', JNum (prl_qty l)),
           (''uom'', j_text (prl_uom l)), (''est_unit_cost'', j_num (prl_est_unit_cost l)),
           (''is_active'', JBool (prl_is_active l))]"

text \<open>
  \<open>upsert_purchase_request_line\<close> of migration 0007, which takes the project of a new
  line as a parameter and keeps \<open>qty\<close> and \<open>uom\<close> when they are passed as null.
\<close>

definition upsert_purchase_request_line_0007 ::
  "ctx \<Rightarrow> uuid option \<Rightarrow> uuid option \<Rightarrow> uuid option \<Rightarrow> pr_line_args \<Rightarrow> db
     \<Rightarrow> error + (purchase_request_line \<times> db)" where
  "upsert_purchase_request_line_0007 c p_purchase_request_id p_project_id p_actor_id a s =
     (case assert_actor_exists s p_actor_id of
        Some e \<Rightarrow> Inl e
      | None \<Rightarrow>
     (case select_pr s p_purchase_request_id of
        None \<Rightarrow> Inl (NotFound, ''PR % not found'')
      | Some v_pr \<Rightarrow>
          if pr_status v_pr \<in> set [cancelled, fulfilled]
          then Inl (InvalidState, ''PR % is not editable in status %'')
          else if p_description a = None \<or> btrim (the (p_description a)) = []
          then Inl (ValidationError, ''PR line description is required'')
          else
            let (v_new_line, s1) =
                  (case existing_line s (p_id a) (pr_id v_pr) of
                     Some v_old_line \<Rightarrow>
                       let upd = (\<lambda>l. l\<lparr>prl_catalog_item_id := p_catalog_item_id a,
                                         prl_description := the (p_description a),
                                         prl_qty := coalesce (p_qty a) (prl_qty l),
                                         prl_uom := coalesce_opt (p_uom a) (prl_uom l),
                                         prl_est_unit_cost := p_est_unit_cost a,
                                         prl_sov_item_id := p_sov_item_id a,
                                         prl_timeline_task_id := p_timeline_task_id a,
                                         prl_is_active := coalesce (p_is_active a) (prl_is_active l),
                                         prl_sort_order := coalesce (p_sort_order a) (prl_sort_order l),
                                         prl_updated_by := set_updated_at_and_by c p_actor_id (prl_updated_by l),
                                         prl_updated_at := now c\<rparr>);
                           v_new_line = upd v_old_line
                       in (v_new_line,
                           insert_status_log c ''purchase_request_line'' (prl_id v_new_line)
                             (pr_project_id v_pr) None None ''PR line updated''
                             (JObj [(''status_at_edit'', JText (pr_status_text (pr_status v_pr))),
                                    (''old'', line_snapshot v_old_line),
                                    (''new'', line_snapshot v_new_line)]) p_actor_id
                             (update_pr_lines (prl_id v_old_line) upd s))
                   | None \<Rightarrow>
                       let v_new_line = \<lparr>prl_id = id_supply s,
                                          prl_purchase_request_id = pr_id v_pr,
                                          prl_project_id = p_project_id,
                                          prl_catalog_item_id = p_catalog_item_id a,
                                          prl_description = the (p_description a),
                                          prl_qty = coalesce (p_qty a) 0,
                                          prl_uom = p_uom a,
                                          prl_est_unit_cost = p_est_unit_cost a,
                                          prl_sov_item_id = p_sov_item_id a,
                                          prl_timeline_task_id = p_timeline_task_id a,
                                          prl_sort_order = coalesce (p_sort_order a) 0,
                                          prl_is_active = coalesce (p_is_active a) True,
                                          prl_created_by = p_actor_id,
                                          prl_updated_by = p_actor_id,
                                          prl_updated_at = now c\<rparr>
                       in (v_new_line,
                           insert_status_log c ''purchase_request_line'' (prl_id v_new_line)
                             (pr_project_id v_pr) None None ''PR line created''
                             (JObj [(''status_at_create'', JText (pr_status_text (pr_status v_pr))),
                                    (''description'', JText (prl_description v_new_line)),
                                    (''qty'', JNum (prl_qty v_new_line))]) p_actor_id
                             (s\<lparr>purchase_request_lines := purchase_request_lines s @ [v_new_line],
                                id_supply := Suc (id_supply s)\<rparr>)))
            in if pr_status v_pr = approved
               then Inr (v_new_line,
                      insert_status_log c ''purchase_request'' (pr_id v_pr) (pr_project_id v_pr)
                        (Some ''approved'') (Some ''submitted'')
                        ''PR edited after approval, approval reset''
                        (JObj [(''pr_number'', JText (pr_number v_pr))]) p_actor_id
                        (update_pr (pr_id v_pr) (reset_approval c p_actor_id) s1))
               else Inr (v_new_line, s1)))"

section \<open>Receipts\<close>

definition current_user_role :: "ctx \<Rightarrow> db \<Rightarrow> string option" where
  "current_user_role c s = role_of (profiles s) (auth_uid c)"

definition can_receive :: "ctx \<Rightarrow> db \<Rightarrow> bool" where
  "can_receive c s =
     coalesce (map_option (\<lambda>r. r \<in> set [''shop'', ''super'', ''ops'', ''admin'', ''commandant''])
                 (current_user_role c s)) False"

definition select_receipt :: "db \<Rightarrow> uuid option \<Rightarrow> receipt option" where
  "select_receipt s p_receipt_id =
     (case p_receipt_id of None \<Rightarrow> None
      | Some i \<Rightarrow> find (\<lambda>r. rc_id r = i) (receipts s))"

definition update_receipt :: "uuid \<Rightarrow> (receipt \<Rightarrow> receipt) \<Rightarrow> db \<Rightarrow> db" where
  "update_receipt i f s =
     s\<lparr>receipts := map (\<lambda>r. if rc_id r = i then f r else r) (receipts s)\<rparr>"

text \<open>\<open>create_receipt\<close> of migration 0007.\<close>

definition create_receipt_0007 ::
  "ctx \<Rightarrow> uuid option \<Rightarrow> uuid option \<Rightarrow> uuid option \<Rightarrow> uuid option \<Rightarrow> string option \<Rightarrow> string option
     \<Rightarrow> db \<Rightarrow> error + (receipt \<times> db)" where
  "create_receipt_0007 c p_project_id p_actor_id p_vendor_id p_purchase_order_id p_location p_notes s =
     (case assert_actor_exists s p_actor_id of
        Some e \<Rightarrow> Inl e
      | None \<Rightarrow>
          if \<not> can_receive c s
          then Inl (AuthorizationError, ''Only shop, super, ops, admin, commandant can create receipts'')
          else
            let v_seq = receipt_number_seq s + 1;
                v_receipt_number = ''RCV-'' @ now_yyyymmdd c @ ''-'' @ lpad (int_text v_seq) 5 (CHR ''0'');
                v_r = \<lparr>rc_id = id_supply s, rc_project_id = p_project_id, rc_vendor_id = p_vendor_id,
                       rc_purchase_order_id = p_purchase_order_id,
                       rc_receipt_number = v_receipt_number, rc_status = pending,
                       rc_received_at = None, rc_received_by = p_actor_id,
                       rc_location = p_location, rc_notes = p_notes,
                       rc_created_by = p_actor_id, rc_updated_by = p_actor_id,
                       rc_updated_at = now c\<rparr>
            in Inr (v_r,
                 insert_status_log c ''receipt'' (rc_id v_r) (rc_project_id v_r) None
                   (Some (receipt_status_text (rc_status v_r))) ''Receipt created''
                   (JObj [(''receipt_number'', JText (rc_receipt_number v_r)),
                          (''purchase_order_id'', j_id (rc_purchase_order_id v_r))]) p_actor_id
                   (s\<lparr>receipts := receipts s @ [v_r], receipt_number_seq := v_seq,
                      id_supply := Suc (id_supply s)\<rparr>)))"

definition unlinked_lines :: "db \<Rightarrow> uuid \<Rightarrow> nat" where
  "unlinked_lines s i =
     length (filter (\<lambda>l. rl_receipt_id l = i \<and> rl_purchase_order_line_id l = None) (receipt_lines s))"

text \<open>
  The declared type of the column \<open>receipts.status\<close>. The table definition is not part
  of the repository, so the type is a parameter: \<open>set_receipt_status\<close> takes its new
  status as \<open>public.receipt_status\<close>, which points to the enum, but a text column would
  accept the same statements.
\<close>

datatype status_column = StatusEnum | StatusText

text \<open>
  \<open>mark_receipt_received\<close> of migration 0007. Its \<open>update\<close> assigns
  \<open>status = case when v_unlinked > 0 then 'received' else 'reconciled' end\<close>; a
  \<open>case\<close> over string literals has type text, which PostgreSQL does not assign to an enum
  column without a cast, so with an enum column the statement raises and the function
  changes nothing.
\<close>

definition mark_receipt_received ::
  "status_column \<Rightarrow> ctx \<Rightarrow> uuid option \<Rightarrow> uuid option \<Rightarrow> string option \<Rightarrow> db
     \<Rightarrow> error + (receipt \<times> db)" where
  "mark_receipt_received col c p_receipt_id p_actor_id p_message s =
     (case assert_actor_exists s p_actor_id of
        Some e \<Rightarrow> Inl e
      | None \<Rightarrow>
          if \<not> can_receive c s
          then Inl (AuthorizationError,
                 ''Only shop, super, ops, admin, commandant can mark receipts received'')
          else
     (case select_receipt s p_receipt_id of
        None \<Rightarrow> Inl (NotFound, ''Receipt % not found'')
      | Some v_old \<Rightarrow>
          if rc_status v_old = rcancelled then Inl (InvalidState, ''Receipt % is cancelled'')
          else if col = StatusEnum
          then Inl (DatatypeMismatch,
                 ''column status is of type receipt_status but expression is of type text'')
          else
            let v_unlinked = unlinked_lines s (rc_id v_old);
                upd = (\<lambda>r. r\<lparr>rc_status := (if 0 < v_unlinked then received else reconciled),
                              rc_received_at := Some (now c),
                              rc_received_by := p_actor_id,
                              rc_updated_by := set_updated_at_and_by c p_actor_id (rc_updated_by r),
                              rc_updated_at := now c\<rparr>);
                v_new = upd v_old
            in Inr (v_new,
                 insert_status_log c ''receipt'' (rc_id v_new) (rc_project_id v_new)
                   (Some (receipt_status_text (rc_status v_old)))
                   (Some (receipt_status_text (rc_status v_new)))
                   (coalesce p_message ''Receipt marked received'')
                   (JObj [(''unlinked_lines'', JNum (of_nat v_unlinked)),
                          (''receipt_number'', JText (rc_receipt_number v_new))]) p_actor_id
                   (update_receipt (rc_id v_old) upd s))))"

text \<open>\<open>set_receipt_status\<close> of migration 0005, the generic transition.\<close>

definition set_receipt_status ::
  "ctx \<Rightarrow> uuid option \<Rightarrow> receipt_status \<Rightarrow> uuid option \<Rightarrow> string option \<Rightarrow> db
     \<Rightarrow> error + (receipt \<times> db)" where
  "set_receipt_status c p_receipt_id p_new_status p_actor_id p_message s =
     (case assert_actor_exists s p_actor_id of
        Some e \<Rightarrow> Inl e
      | None \<Rightarrow>
     (case select_receipt s p_receipt_id of
        None \<Rightarrow> Inl (NotFound, ''Receipt % not found'')
      | Some v_old \<Rightarrow>
          let upd = (\<lambda>r. r\<lparr>rc_status := p_new_status,
                            rc_received_at := (if p_new_status = received \<and> rc_received_at r = None
                                               then Some (now c) else rc_received_at r),
                            rc_received_by := (if p_new_status = received \<and> rc_received_by r = None
                                               then p_actor_id else rc_received_by r),
                            rc_updated_by := set_updated_at_and_by c p_actor_id (rc_updated_by r),
                            rc_updated_at := now c\<rparr>);
              v_new = upd v_old
          in Inr (v_new,
               insert_status_log c ''receipt'' (rc_id v_new) (rc_project_id v_new)
                 (Some (receipt_status_text (rc_status v_old)))
                 (Some (receipt_status_text (rc_status v_new)))
                 (coalesce p_message ''Receipt status updated'')
                 (JObj [(''receipt_number'', JText (rc_receipt_number v_new))]) p_actor_id
                 (update_receipt (rc_id v_old) upd s))))"

section \<open>Receipt coverage of purchase order lines (migration 0006)\<close>

record purchase_order_line =
  pol_id :: uuid
  pol_purchase_order_id :: uuid
  pol_description :: string
  pol_qty :: "numeric option"

record coverage_row =
  cov_purchase_order_line_id :: uuid
  cov_qty_ordered :: "numeric option"
  cov_qty_received_total :: numeric
  cov_qty_open_remaining :: numeric
  cov_receipt_coverage :: string

text \<open>
  The two left joins for one order line: its receipt lines, each with the receipts of
  its \<open>receipt_id\<close>, or with none.
\<close>

definition coverage_join ::
  "receipt_line list \<Rightarrow> receipt list \<Rightarrow> purchase_order_line \<Rightarrow> (receipt_line \<times> receipt option) list" where
  "coverage_join rls rs pol =
     concat (map (\<lambda>rl. case filter (\<lambda>r. rc_id r = rl_receipt_id rl) rs of
                          [] \<Rightarrow> [(rl, None)]
                        | m # ms \<Rightarrow> map (\<lambda>r. (rl, Some r)) (m # ms))
               (filter (\<lambda>rl. rl_purchase_order_line_id rl = Some (pol_id pol)) rls))"

text \<open>\<open>filter (where r.status <> 'cancelled')\<close>: a missing receipt compares to null.\<close>

definition not_cancelled :: "receipt_line \<times> receipt option \<Rightarrow> bool" where
  "not_cancelled row = (case snd row of None \<Rightarrow> False | Some r \<Rightarrow> rc_status r \<noteq> rcancelled)"

definition qty_received_total :: "receipt_line list \<Rightarrow> receipt list \<Rightarrow> purchase_order_line \<Rightarrow> numeric" where
  "qty_received_total rls rs pol =
     coalesce (sql_sum (map (\<lambda>row. Some (rl_qty_received (fst row)))
                 (filter not_cancelled (coverage_join rls rs pol)))) 0"

definition qty_open_remaining :: "receipt_line list \<Rightarrow> receipt list \<Rightarrow> purchase_order_line \<Rightarrow> numeric" where
  "qty_open_remaining rls rs pol =
     max (coalesce (pol_qty pol) 0 - qty_received_total rls rs pol) 0"

definition receipt_coverage :: "receipt_line list \<Rightarrow> receipt list \<Rightarrow> purchase_order_line \<Rightarrow> string" where
  "receipt_coverage rls rs pol =
     (if coalesce (pol_qty pol) 0 \<le> 0 then ''unknown''
      else if qty_received_total rls rs pol \<le> 0 then ''not_received''
      else if qty_received_total rls rs pol < coalesce (pol_qty pol) 0 then ''partial''
      else ''received'')"

definition v_po_line_receipt_coverage ::
  "purchase_order_line list \<Rightarrow> receipt_line list \<Rightarrow> receipt list \<Rightarrow> coverage_row list" where
  "v_po_line_receipt_coverage pols rls rs =
     map (\<lambda>pol. \<lparr>cov_purchase_order_line_id = pol_id pol,
                  cov_qty_ordered = pol_qty pol,
                  cov_qty_received_total = qty_received_total rls rs pol,
                  cov_qty_open_remaining = qty_open_remaining rls rs pol,
                  cov_receipt_coverage = receipt_coverage rls rs pol\<rparr>) pols"

section \<open>The session-based functions (\<open>rpc_pr_*\<close>)\<close>

text \<open>
  The \<open>rpc_pr_*\<close> functions identify the caller by \<open>auth.uid()\<close>, take roles from
  \<open>user_roles\<close> and use their own columns (\<open>pr_id\<close>, \<open>item_name\<close>, \<open>unit_cost\<close>,
  \<open>po_id\<close>, \<open>source_pr_id\<close>, \<open>source_pr_line_id\<close>).
\<close>

datatype po_status =
  po_draft | po_issued | po_acknowledged | po_partially_received | po_received | po_closed | po_cancelled

record rpc_purchase_request =
  rq_id :: uuid
  rq_status :: pr_status
  rq_created_by :: "uuid option"
  rq_submitted_at :: "timestamptz option"
  rq_po_id :: "uuid option"
  rq_converted_at :: "timestamptz option"
  rq_converted_by :: "uuid option"
  rq_updated_at :: timestamptz

record rpc_pr_line =
  ln_id :: uuid
  ln_pr_id :: uuid
  ln_item_name :: string
  ln_qty :: numeric
  ln_unit :: "string option"
  ln_unit_cost :: numeric
  ln_notes :: "string option"

record rpc_purchase_order =
  o_id :: uuid
  o_vendor_id :: uuid
  o_ship_to :: "string option"
  o_notes :: "string option"
  o_status :: po_status
  o_source_pr_id :: "uuid option"
  o_created_by :: uuid
  o_created_at :: timestamptz
  o_updated_at :: timestamptz

record rpc_po_line =
  ol_id :: uuid
  ol_po_id :: uuid
  ol_item_name :: string
  ol_qty :: numeric
  ol_unit :: "string option"
  ol_unit_cost :: numeric
  ol_notes :: "string option"
  ol_source_pr_line_id :: "uuid option"
  ol_created_at :: timestamptz
  ol_updated_at :: timestamptz

record rpc_db =
  user_roles :: "(uuid \<times> string) list"
  rpc_purchase_requests :: "rpc_purchase_request list"
  rpc_purchase_request_lines :: "rpc_pr_line list"
  purchase_orders :: "rpc_purchase_order list"
  purchase_order_lines :: "rpc_po_line list"
  rpc_id_supply :: uuid

definition has_role :: "rpc_db \<Rightarrow> uuid \<Rightarrow> string \<Rightarrow> bool" where
  "has_role s p_user p_role = ((p_user, p_role) \<in> set (user_roles s))"

definition select_rq :: "rpc_db \<Rightarrow> uuid option \<Rightarrow> rpc_purchase_request option" where
  "select_rq s p_pr_id =
     (case p_pr_id of None \<Rightarrow> None
      | Some i \<Rightarrow> find (\<lambda>r. rq_id r = i) (rpc_purchase_requests s))"

definition update_rq :: "uuid \<Rightarrow> (rpc_purchase_request \<Rightarrow> rpc_purchase_request) \<Rightarrow> rpc_db \<Rightarrow> rpc_db" where
  "update_rq i f s =
     s\<lparr>rpc_purchase_requests := map (\<lambda>r. if rq_id r = i then f r else r) (rpc_purchase_requests s)\<rparr>"

text \<open>The lines of a request, and the lines of an order.\<close>

definition pr_lines_of :: "rpc_db \<Rightarrow> uuid \<Rightarrow> rpc_pr_line list" where
  "pr_lines_of s i = filter (\<lambda>l. ln_pr_id l = i) (rpc_purchase_request_lines s)"

definition po_lines_of :: "rpc_db \<Rightarrow> uuid \<Rightarrow> rpc_po_line list" where
  "po_lines_of s i = filter (\<lambda>l. ol_po_id l = i) (purchase_order_lines s)"

definition rpc_pr_submit :: "ctx \<Rightarrow> uuid option \<Rightarrow> rpc_db \<Rightarrow> error + rpc_db" where
  "rpc_pr_submit c p_pr_id s =
     (case auth_uid c of
        None \<Rightarrow> Inl (AuthorizationError, ''Not authenticated'')
      | Some v_uid \<Rightarrow>
     (case select_rq s p_pr_id of
        None \<Rightarrow> Inl (NotFound, ''PR not found'')
      | Some pr \<Rightarrow>
          if rq_status pr \<noteq> draft then Inl (InvalidState, ''Only draft PRs can be submitted'')
          else if (case rq_created_by pr of None \<Rightarrow> False | Some cb \<Rightarrow> cb \<noteq> v_uid)
                  \<and> \<not> has_role s v_uid ''purchasing_admin''
          then Inl (AuthorizationError, ''Not allowed'')
          else if length (pr_lines_of s (rq_id pr)) < 1
          then Inl (ValidationError, ''Add at least one line before submitting'')
          else Inr (update_rq (rq_id pr)
                      (\<lambda>r. r\<lparr>rq_status := submitted, rq_submitted_at := Some (now c),
                              rq_updated_at := now c\<rparr>) s)))"

text \<open>
  The copy of one request line into the new order, and the unique index
  \<open>purchase_orders_source_pr_id_uq\<close>, which refuses a second order for a request.
\<close>

definition copy_line :: "ctx \<Rightarrow> uuid \<Rightarrow> uuid \<times> rpc_pr_line \<Rightarrow> rpc_po_line" where
  "copy_line c v_po_id il =
     \<lparr>ol_id = fst il, ol_po_id = v_po_id, ol_item_name = ln_item_name (snd il),
      ol_qty = ln_qty (snd il), ol_unit = ln_unit (snd il), ol_unit_cost = ln_unit_cost (snd il),
      ol_notes = ln_notes (snd il), ol_source_pr_line_id = Some (ln_id (snd il)),
      ol_created_at = now c, ol_updated_at = now c\<rparr>"

definition rpc_pr_convert_to_po ::
  "ctx \<Rightarrow> uuid option \<Rightarrow> uuid option \<Rightarrow> string option \<Rightarrow> string option \<Rightarrow> rpc_db
     \<Rightarrow> error + (uuid \<times> rpc_db)" where
  "rpc_pr_convert_to_po c p_pr_id p_vendor_id p_ship_to p_notes s =
     (case auth_uid c of
        None \<Rightarrow> Inl (AuthorizationError, ''Not authenticated'')
      | Some v_uid \<Rightarrow>
          if \<not> (has_role s v_uid ''purchasing_admin'' \<or> has_role s v_uid ''purchasing_approver'')
          then Inl (AuthorizationError, ''Not allowed'')
          else
     (case select_rq s p_pr_id of
        None \<Rightarrow> Inl (NotFound, ''PR not found'')
      | Some pr \<Rightarrow>
          if rq_status pr \<noteq> approved
          then Inl (InvalidState, ''PR must be approved to convert to PO'')
          else if rq_po_id pr \<noteq> None then Inl (ConflictError, ''PR already converted to PO'')
          else if p_vendor_id = None then Inl (ValidationError, ''Vendor is required'')
          else
            let lines = pr_lines_of s (rq_id pr)
            in if length lines < 1 then Inl (ValidationError, ''PR has no lines'')
               else if Some (rq_id pr) \<in> set (map o_source_pr_id (purchase_orders s))
               then Inl (ConflictError, ''duplicate key value violates unique constraint purchase_orders_source_pr_id_uq'')
               else
                 let v_po_id = rpc_id_supply s;
                     po = \<lparr>o_id = v_po_id, o_vendor_id = the p_vendor_id, o_ship_to = p_ship_to,
                           o_notes = p_notes, o_status = po_draft, o_source_pr_id = Some (rq_id pr),
                           o_created_by = v_uid, o_created_at = now c, o_updated_at = now c\<rparr>;
                     new_lines = map (copy_line c v_po_id)
                                   (zip [Suc v_po_id ..< Suc v_po_id + length lines] lines)
                 in Inr (v_po_id,
                      update_rq (rq_id pr)
                        (\<lambda>r. r\<lparr>rq_po_id := Some v_po_id, rq_converted_at := Some (now c),
                                rq_converted_by := Some v_uid, rq_updated_at := now c\<rparr>)
                        (s\<lparr>purchase_orders := purchase_orders s @ [po],
                           purchase_order_lines := purchase_order_lines s @ new_lines,
                           rpc_id_supply := Suc v_po_id + length lines\<rparr>))))"

section \<open>Observations used in the statements\<close>

text \<open>What a call returned and the database it left, when it did not raise.\<close>

definition returned :: "error + ('a \<times> 'b) \<Rightarrow> 'a option" where
  "returned x = (case x of Inl e \<Rightarrow> None | Inr rs \<Rightarrow> Some (fst rs))"

definition result_db :: "error + ('a \<times> 'b) \<Rightarrow> 'b option" where
  "result_db x = (case x of Inl e \<Rightarrow> None | Inr rs \<Rightarrow> Some (snd rs))"

text \<open>A log entry that records the transition approved to submitted of request \<open>i\<close>.\<close>

definition is_approval_reset_entry :: "uuid \<Rightarrow> status_log \<Rightarrow> bool" where
  "is_approval_reset_entry i e =
     (log_entity_type e = ''purchase_request'' \<and> log_entity_id e = i \<and>
      log_from_status e = Some ''approved'' \<and> log_to_status e = Some ''submitted'')"

text \<open>
  Between \<open>s\<close> and \<open>s'\<close> the approval of request \<open>i\<close> was reset: the request is
  submitted with both approver fields null, and the log grew by two entries of which
  exactly one is the reset entry.
\<close>

definition approval_reset_done :: "db \<Rightarrow> db \<Rightarrow> uuid \<Rightarrow> bool" where
  "approval_reset_done s s' i =
     ((case select_pr s' (Some i) of
         None \<Rightarrow> False
       | Some r \<Rightarrow> pr_status r = submitted \<and> pr_approved_by r = None \<and> pr_approved_at r = None) \<and>
      take (length (status_logs s)) (status_logs s') = status_logs s \<and>
      length (drop (length (status_logs s)) (status_logs s')) = 2 \<and>
      length (filter (is_approval_reset_entry i) (drop (length (status_logs s)) (status_logs s'))) = 1)"

section \<open>A sample database\<close>

definition demo_profiles :: "profile list" where
  "demo_profiles =
     [\<lparr>profile_id = 11, profile_role = ''ops''\<rparr>,
      \<lparr>profile_id = 12, profile_role = ''executive''\<rparr>,
      \<lparr>profile_id = 13, profile_role = ''purchasing''\<rparr>,
      \<lparr>profile_id = 14, profile_role = ''shop''\<rparr>]"

definition demo_config :: "app_config_row list" where
  "demo_config = [\<lparr>cfg_key = ''PR_APPROVAL_THRESHOLD'', cfg_value = 1000\<rparr>]"

definition demo_pr :: "uuid \<Rightarrow> pr_status \<Rightarrow> uuid option \<Rightarrow> timestamptz option \<Rightarrow> purchase_request" where
  "demo_pr i st ab aa =
     \<lparr>pr_id = i, pr_project_id = Some 50, pr_number = ''PR-2024-0001'', pr_status = st,
      pr_needed_by_date = Some 20, pr_priority = Some ''normal'', pr_requested_by = Some 11,
      pr_notes = Some ''site A'', pr_approved_by = ab, pr_approved_at = aa,
      pr_created_by = Some 11, pr_updated_by = Some 11, pr_updated_at = 3\<rparr>"

definition demo_line :: "uuid \<Rightarrow> uuid \<Rightarrow> purchase_request_line" where
  "demo_line i p =
     \<lparr>prl_id = i, prl_purchase_request_id = p, prl_project_id = Some 50,
      prl_catalog_item_id = None, prl_description = ''anchor bolts'', prl_qty = 2,
      prl_uom = Some ''ea'', prl_est_unit_cost = Some 10, prl_sov_item_id = None,
      prl_timeline_task_id = None, prl_sort_order = 0, prl_is_active = True,
      prl_created_by = Some 11, prl_updated_by = Some 11, prl_updated_at = 3\<rparr>"

definition demo_receipt :: receipt where
  "demo_receipt =
     \<lparr>rc_id = 300, rc_project_id = Some 50, rc_vendor_id = None, rc_purchase_order_id = None,
      rc_receipt_number = ''RCV-000001'', rc_status = received, rc_received_at = Some 5,
      rc_received_by = Some 14, rc_location = None, rc_notes = None, rc_created_by = Some 14,
      rc_updated_by = Some 14, rc_updated_at = 5\<rparr>"

text \<open>
  Request 100 is a draft without lines, 101 a draft with one active line, 102 is
  submitted, 103 is approved; receipt 300 was received at time 5 by actor 14 and has one
  line without an order line.
\<close>

definition demo_db :: db where
  "demo_db =
     \<lparr>profiles = demo_profiles, app_config = demo_config,
      pr_number_counters = [\<lparr>cnt_year = 2024, cnt_last_seq = 6, cnt_updated_at = 1\<rparr>],
      purchase_requests =
        [demo_pr 100 draft None None, demo_pr 101 draft None None,
         demo_pr 102 submitted None None, demo_pr 103 approved (Some 12) (Some 8)],
      purchase_request_lines = [demo_line 201 101, demo_line 202 102, demo_line 203 103],
      receipts = [demo_receipt],
      receipt_lines =
        [\<lparr>rl_id = 400, rl_receipt_id = 300, rl_purchase_order_line_id = None,
          rl_description = ''conduit'', rl_qty_received = 3\<rparr>],
      receipt_number_seq = 1, status_logs = [], id_supply = 1000\<rparr>"

definition demo_ctx :: ctx where
  "demo_ctx = \<lparr>auth_uid = None, now = 9, now_year = 2024, now_yyyymmdd = ''20240611''\<rparr>"

definition demo_line_args :: pr_line_args where
  "demo_line_args =
     \<lparr>p_id = None, p_catalog_item_id = None, p_description = Some ''washers'',
      p_qty = Some 8, p_uom = None, p_est_unit_cost = None, p_sov_item_id = None,
      p_timeline_task_id = None, p_sort_order = None, p_is_active = None\<rparr>"

section \<open>The approval invariant and the lifecycle operations\<close>

text \<open>
  For one request: \<open>approved_by\<close> is non-null exactly when the status is approved, and
  \<open>approved_by\<close> and \<open>approved_at\<close> are null together.
\<close>

definition approval_consistent :: "purchase_request \<Rightarrow> bool" where
  "approval_consistent r =
     (((pr_approved_by r \<noteq> None) = (pr_status r = approved)) \<and>
      ((pr_approved_by r = None) = (pr_approved_at r = None)))"

definition approver_paired :: "purchase_request \<Rightarrow> bool" where
  "approver_paired r = ((pr_approved_by r = None) = (pr_approved_at r = None))"

text \<open>The primary key of \<open>purchase_requests\<close>, and ids that the supply has already given out.\<close>

definition pr_table_ok :: "db \<Rightarrow> bool" where
  "pr_table_ok s =
     (distinct (map pr_id (purchase_requests s)) \<and>
      list_all (\<lambda>r. pr_id r < id_supply s) (purchase_requests s))"

definition approval_invariant :: "db \<Rightarrow> bool" where
  "approval_invariant s = (pr_table_ok s \<and> list_all approval_consistent (purchase_requests s))"

text \<open>The lifecycle operations of migration 0009, by name, and the database each leaves.\<close>

datatype pr_operation =
    Create "uuid option" "uuid option" "nat option" "string option" "string option"
  | UpdateHeader "uuid option" "uuid option" "nat option" "string option" "string option"
  | UpsertLine "uuid option" "uuid option" pr_line_args
  | Submit "uuid option" "uuid option" "string option"
  | Approve "uuid option" "uuid option" "string option"
  | Reject "uuid option" "uuid option" "string option"

fun run_operation :: "ctx \<Rightarrow> pr_operation \<Rightarrow> db \<Rightarrow> error + db" where
  "run_operation c (Create pj a nd pri nt) s = map_sum id snd (create_purchase_request c pj a nd pri nt s)"
| "run_operation c (UpdateHeader p a nd pri nt) s =
     map_sum id snd (update_purchase_request_header c p a nd pri nt s)"
| "run_operation c (UpsertLine p a args) s = map_sum id snd (upsert_purchase_request_line c p a args s)"
| "run_operation c (Submit p a m) s = map_sum id snd (submit_purchase_request c p a m s)"
| "run_operation c (Approve p a m) s = map_sum id snd (approve_purchase_request c p a m s)"
| "run_operation c (Reject p a m) s = map_sum id snd (reject_purchase_request c p a m s)"

definition demo_edit_args :: pr_line_args where
  "demo_edit_args =
     \<lparr>p_id = Some 201, p_catalog_item_id = None, p_description = Some ''anchor bolts'',
      p_qty = Some 2, p_uom = None, p_est_unit_cost = None, p_sov_item_id = None,
      p_timeline_task_id = None, p_sort_order = None, p_is_active = None\<rparr>"

text \<open>A session of the shop user 14.\<close>

definition demo_ctx_shop :: ctx where
  "demo_ctx_shop = \<lparr>auth_uid = Some 14, now = 9, now_year = 2024, now_yyyymmdd = ''20240611''\<rparr>"

text \<open>No stored order line refers to an order id that the supply has not given out yet.\<close>

definition po_ids_fresh :: "rpc_db \<Rightarrow> bool" where
  "po_ids_fresh s = list_all (\<lambda>l. ol_po_id l < rpc_id_supply s) (purchase_order_lines s)"

text \<open>The orders that name a request as their source, and what a line copy carries over.\<close>

definition orders_of_request :: "rpc_db \<Rightarrow> uuid \<Rightarrow> rpc_purchase_order list" where
  "orders_of_request s i = filter (\<lambda>x. o_source_pr_id x = Some i) (purchase_orders s)"

definition pr_line_content :: "rpc_pr_line \<Rightarrow> string \<times> numeric \<times> string option \<times> numeric \<times> string option" where
  "pr_line_content l = (ln_item_name l, ln_qty l, ln_unit l, ln_unit_cost l, ln_notes l)"

definition po_line_content :: "rpc_po_line \<Rightarrow> string \<times> numeric \<times> string option \<times> numeric \<times> string option" where
  "po_line_content l = (ol_item_name l, ol_qty l, ol_unit l, ol_unit_cost l, ol_notes l)"

text \<open>
  Request 500 is approved and not converted, with the lines 601 and 602; user 21 is a
  purchasing approver.
\<close>

definition demo_rq :: rpc_purchase_request where
  "demo_rq =
     \<lparr>rq_id = 500, rq_status = approved, rq_created_by = Some 22, rq_submitted_at = Some 2,
      rq_po_id = None, rq_converted_at = None, rq_converted_by = None, rq_updated_at = 3\<rparr>"

definition demo_rpc_db :: rpc_db where
  "demo_rpc_db =
     \<lparr>user_roles = [(21, ''purchasing_approver'')],
      rpc_purchase_requests = [demo_rq],
      rpc_purchase_request_lines =
        [\<lparr>ln_id = 601, ln_pr_id = 500, ln_item_name = ''rebar'', ln_qty = 40, ln_unit = Some ''ea'',
          ln_unit_cost = 12, ln_notes = None\<rparr>,
         \<lparr>ln_id = 602, ln_pr_id = 500, ln_item_name = ''tie wire'', ln_qty = 5, ln_unit = None,
          ln_unit_cost = 7, ln_notes = None\<rparr>],
      purchase_orders = [], purchase_order_lines = [], rpc_id_supply = 700\<rparr>"

definition demo_ctx_rpc :: ctx where
  "demo_ctx_rpc = \<lparr>auth_uid = Some 21, now = 9, now_year = 2024, now_yyyymmdd = ''20240611''\<rparr>"

section \<open>Coverage: what the statements count\<close>

definition receipt_status_of :: "receipt list \<Rightarrow> uuid \<Rightarrow> receipt_status option" where
  "receipt_status_of rs i = map_option rc_status (find (\<lambda>r. rc_id r = i) rs)"

text \<open>The receipt lines linked to an order line whose receipt exists and is not cancelled.\<close>

definition counted_lines ::
  "receipt_line list \<Rightarrow> receipt list \<Rightarrow> purchase_order_line \<Rightarrow> receipt_line list" where
  "counted_lines rls rs pol =
     filter (\<lambda>rl. rl_purchase_order_line_id rl = Some (pol_id pol) \<and>
                  (case receipt_status_of rs (rl_receipt_id rl) of
                     None \<Rightarrow> False
                   | Some st \<Rightarrow> st \<noteq> rcancelled)) rls"

definition on_cancelled_receipt :: "receipt list \<Rightarrow> receipt_line \<Rightarrow> bool" where
  "on_cancelled_receipt rs rl = (receipt_status_of rs (rl_receipt_id rl) = Some rcancelled)"

text \<open>
  Sample data: receipt 300 is received, receipt 310 is cancelled; an order line 800 with
  a given quantity, and receipt lines linked to it.
\<close>

definition cov_receipts :: "receipt list" where
  "cov_receipts = [demo_receipt, demo_receipt\<lparr>rc_id := 310, rc_status := rcancelled\<rparr>]"

definition cov_pol :: "numeric option \<Rightarrow> purchase_order_line" where
  "cov_pol q = \<lparr>pol_id = 800, pol_purchase_order_id = 700, pol_description = ''conduit'', pol_qty = q\<rparr>"

definition cov_line :: "uuid \<Rightarrow> uuid \<Rightarrow> numeric \<Rightarrow> receipt_line" where
  "cov_line i rc q =
     \<lparr>rl_id = i, rl_receipt_id = rc, rl_purchase_order_line_id = Some 800,
      rl_description = ''conduit'', rl_qty_received = q\<rparr>"

section \<open>Numbering: what the statements read off the counters\<close>

text \<open>The stored \<open>last_seq\<close> of a year, and the value the next call in \<open>c\<close>'s year returns.\<close>

definition year_seq :: "db \<Rightarrow> int \<Rightarrow> int option" where
  "year_seq s y = map_option cnt_last_seq (find (\<lambda>r. cnt_year r = y) (pr_number_counters s))"

definition next_seq :: "ctx \<Rightarrow> db \<Rightarrow> int" where
  "next_seq c s = coalesce (year_seq s (now_year c)) 0 + 1"

text \<open>A call in the following year.\<close>

definition demo_ctx_2025 :: ctx where
  "demo_ctx_2025 = \<lparr>auth_uid = None, now = 400, now_year = 2025, now_yyyymmdd = ''20250102''\<rparr>"

text \<open>
  Reading a request number back: the value of a string of decimal digits, and the year
  and the sequence value that a number of the shape \<open>PR-YYYY-####\<close> shows, which are
  its characters 4 to 7 and its characters from the ninth on.
\<close>

definition digit_val :: "char \<Rightarrow> nat" where
  "digit_val ch = of_char ch - 48"

definition digits_value :: "string \<Rightarrow> nat" where
  "digits_value xs = foldl (\<lambda>acc ch. 10 * acc + digit_val ch) 0 xs"

definition number_year :: "string \<Rightarrow> nat" where
  "number_year n = digits_value (take 4 (drop 3 n))"

definition number_seq :: "string \<Rightarrow> nat" where
  "number_seq n = digits_value (drop 8 n)"

text \<open>The sample database after \<open>k\<close> numbers were drawn in 2024.\<close>

definition demo_db_at :: "int \<Rightarrow> db" where
  "demo_db_at k = demo_db\<lparr>pr_number_counters := [\<lparr>cnt_year = 2024, cnt_last_seq = k, cnt_updated_at = 1\<rparr>]\<rparr>"

section \<open>Basic facts about the helpers\<close>

lemma insert_status_log_fields [simp]:
  "profiles (insert_status_log c et ei pj fs ts m md cb s) = profiles s"
  "app_config (insert_status_log c et ei pj fs ts m md cb s) = app_config s"
  "pr_number_counters (insert_status_log c et ei pj fs ts m md cb s) = pr_number_counters s"
  "purchase_requests (insert_status_log c et ei pj fs ts m md cb s) = purchase_requests s"
  "purchase_request_lines (insert_status_log c et ei pj fs ts m md cb s) = purchase_request_lines s"
  "receipts (insert_status_log c et ei pj fs ts m md cb s) = receipts s"
  "receipt_lines (insert_status_log c et ei pj fs ts m md cb s) = receipt_lines s"
  "id_supply (insert_status_log c et ei pj fs ts m md cb s) = id_supply s"
  "status_logs (insert_status_log c et ei pj fs ts m md cb s) =
     status_logs s @ [\<lparr>log_entity_type = et, log_entity_id = ei, log_project_id = pj,
        log_from_status = fs, log_to_status = ts, log_message = m, log_metadata = md,
        log_created_by = cb, log_created_at = now c\<rparr>]"
  by (simp_all add: insert_status_log_def)

lemma update_pr_fields [simp]:
  "profiles (update_pr i f s) = profiles s"
  "app_config (update_pr i f s) = app_config s"
  "pr_number_counters (update_pr i f s) = pr_number_counters s"
  "purchase_request_lines (update_pr i f s) = purchase_request_lines s"
  "status_logs (update_pr i f s) = status_logs s"
  "id_supply (update_pr i f s) = id_supply s"
  "purchase_requests (update_pr i f s) = map (\<lambda>r. if pr_id r = i then f r else r) (purchase_requests s)"
  by (simp_all add: update_pr_def)

lemma update_pr_lines_fields [simp]:
  "profiles (update_pr_lines i f s) = profiles s"
  "app_config (update_pr_lines i f s) = app_config s"
  "purchase_requests (update_pr_lines i f s) = purchase_requests s"
  "status_logs (update_pr_lines i f s) = status_logs s"
  "id_supply (update_pr_lines i f s) = id_supply s"
  by (simp_all add: update_pr_lines_def)

lemma find_map_update:
  assumes "\<And>r. key (f r) = key r"
  shows "find (\<lambda>r. key r = i) (map (\<lambda>r. if key r = i then f r else r) xs)
           = map_option f (find (\<lambda>r. key r = i) xs)"
  by (induction xs) (simp_all add: assms)

lemma select_pr_cong:
  "purchase_requests s' = purchase_requests s \<Longrightarrow> select_pr s' p = select_pr s p"
  by (cases p) (simp_all add: select_pr_def)

lemma select_pr_update_pr:
  assumes "\<And>r. pr_id (f r) = pr_id r"
  shows "select_pr (update_pr i f s) (Some i) = map_option f (select_pr s (Some i))"
  by (simp add: select_pr_def find_map_update [where key = pr_id, OF assms])

lemma select_pr_id: "select_pr s p = Some r \<Longrightarrow> p = Some (pr_id r)"
  by (auto simp: select_pr_def find_Some_iff split: option.splits)

lemma select_pr_insert_status_log [simp]:
  "select_pr (insert_status_log c et ei pj fs ts m md cb s) p = select_pr s p"
  by (rule select_pr_cong) simp

lemma select_pr_update_pr_lines [simp]:
  "select_pr (update_pr_lines i f s) p = select_pr s p"
  by (rule select_pr_cong) simp

lemma select_pr_add_line [simp]:
  "select_pr (s\<lparr>purchase_request_lines := ls, id_supply := n\<rparr>) p = select_pr s p"
  by (rule select_pr_cong) simp

lemma reset_approval_simps [simp]:
  "pr_id (reset_approval c a r) = pr_id r"
  "pr_status (reset_approval c a r) = submitted"
  "pr_approved_by (reset_approval c a r) = None"
  "pr_approved_at (reset_approval c a r) = None"
  "pr_project_id (reset_approval c a r) = pr_project_id r"
  by (simp_all add: reset_approval_def)

lemmas demo_defs =
  demo_db_def demo_profiles_def demo_config_def demo_pr_def demo_line_def demo_receipt_def
  demo_ctx_def demo_line_args_def

lemma demo_tables [simp]:
  "profiles demo_db = demo_profiles"
  "app_config demo_db = demo_config"
  "pr_number_counters demo_db = [\<lparr>cnt_year = 2024, cnt_last_seq = 6, cnt_updated_at = 1\<rparr>]"
  "purchase_requests demo_db =
     [demo_pr 100 draft None None, demo_pr 101 draft None None,
      demo_pr 102 submitted None None, demo_pr 103 approved (Some 12) (Some 8)]"
  "purchase_request_lines demo_db = [demo_line 201 101, demo_line 202 102, demo_line 203 103]"
  "receipts demo_db = [demo_receipt]"
  "receipt_lines demo_db =
     [\<lparr>rl_id = 400, rl_receipt_id = 300, rl_purchase_order_line_id = None,
       rl_description = ''conduit'', rl_qty_received = 3\<rparr>]"
  "receipt_number_seq demo_db = 1"
  "status_logs demo_db = []"
  "id_supply demo_db = 1000"
  by (simp_all add: demo_db_def)

lemma demo_ctx_fields [simp]:
  "auth_uid demo_ctx = None" "now demo_ctx = 9" "now_year demo_ctx = 2024"
  "now_yyyymmdd demo_ctx = ''20240611''"
  by (simp_all add: demo_ctx_def)

lemma demo_actor_exists [simp]:
  "assert_actor_exists demo_db (Some 11) = None"
  "assert_actor_exists demo_db (Some 12) = None"
  "assert_actor_exists demo_db (Some 13) = None"
  "assert_actor_exists demo_db (Some 14) = None"
  by (simp_all add: assert_actor_exists_def demo_defs)

lemma demo_select_pr [simp]:
  "select_pr demo_db (Some 100) = Some (demo_pr 100 draft None None)"
  "select_pr demo_db (Some 101) = Some (demo_pr 101 draft None None)"
  "select_pr demo_db (Some 102) = Some (demo_pr 102 submitted None None)"
  "select_pr demo_db (Some 103) = Some (demo_pr 103 approved (Some 12) (Some 8))"
  by (simp_all add: select_pr_def demo_db_def demo_pr_def)

lemma demo_pr_fields [simp]:
  "pr_id (demo_pr i st ab aa) = i"
  "pr_project_id (demo_pr i st ab aa) = Some 50"
  "pr_number (demo_pr i st ab aa) = ''PR-2024-0001''"
  "pr_updated_by (demo_pr i st ab aa) = Some 11"
  "pr_status (demo_pr i st ab aa) = st"
  "pr_approved_by (demo_pr i st ab aa) = ab"
  "pr_approved_at (demo_pr i st ab aa) = aa"
  "pr_needed_by_date (demo_pr i st ab aa) = Some 20"
  "pr_priority (demo_pr i st ab aa) = Some ''normal''"
  "pr_notes (demo_pr i st ab aa) = Some ''site A''"
  by (simp_all add: demo_pr_def)

section \<open>C1: the approval gate\<close>

lemma can_approve_pr_0007_tiers:
  assumes "role_of (profiles s) (auth_uid c) = Some r"
  shows "can_approve_pr_0007 c s p_pr_id =
     (if 1000 \<le> coalesce (sql_sum (map est_ext_cost
                      (filter prl_is_active
                         (filter (\<lambda>l. Some (prl_purchase_request_id l) = p_pr_id)
                            (purchase_request_lines s))))) 0
      then r \<in> {''ops'', ''executive'', ''accounting'', ''admin'', ''commandant''}
      else r \<in> {''purchasing'', ''ops'', ''executive'', ''accounting'', ''admin'', ''commandant''})"
  using assms by (simp add: can_approve_pr_0007_def Let_def coalesce_def)

text \<open>
  C1, as the code has it. The two-argument gate \<open>can_approve_pr(p_actor_id, p_pr_total)\<close>
  of migration 0009 answers, for an actor with role \<open>r\<close> and a configured threshold
  \<open>t\<close>: at or above the threshold (a null total counts as 0) exactly the roles
  executive, accounting, admin, commandant; below it exactly ops, executive, accounting,
  admin, commandant. The role purchasing is in neither set.
\<close>

theorem can_approve_pr_tiers:
  assumes "role_of ps p_actor_id = Some r"
    and "get_pr_approval_threshold cfg = Some t"
  shows "can_approve_pr ps cfg p_actor_id p_pr_total =
           (if t \<le> coalesce p_pr_total 0
            then r \<in> {''executive'', ''accounting'', ''admin'', ''commandant''}
            else r \<in> {''ops'', ''executive'', ''accounting'', ''admin'', ''commandant''})"
  using assms by (simp add: can_approve_pr_def)

text \<open>
  The instances the claim names, with threshold 1000: ops at 999.99 may approve, ops at
  1000.00 may not, executive at 1000.00 may.
\<close>

theorem can_approve_pr_tiers_witness:
  "role_of demo_profiles (Some 11) = Some ''ops'' \<and>
   role_of demo_profiles (Some 12) = Some ''executive'' \<and>
   get_pr_approval_threshold demo_config = Some 1000 \<and>
   can_approve_pr demo_profiles demo_config (Some 11) (Some (99999 / 100)) = True \<and>
   can_approve_pr demo_profiles demo_config (Some 11) (Some 1000) = False \<and>
   can_approve_pr demo_profiles demo_config (Some 12) (Some 1000) = True"
proof -
  have r1: "role_of demo_profiles (Some 11) = Some ''ops''"
    by (simp add: role_of_def demo_profiles_def)
  have r2: "role_of demo_profiles (Some 12) = Some ''executive''"
    by (simp add: role_of_def demo_profiles_def)
  have t: "get_pr_approval_threshold demo_config = Some 1000"
    by (simp add: get_pr_approval_threshold_def demo_config_def)
  show ?thesis
    using can_approve_pr_tiers [OF r1 t, of "Some (99999 / 100)"]
      can_approve_pr_tiers [OF r1 t, of "Some 1000"]
      can_approve_pr_tiers [OF r2 t, of "Some 1000"] r1 r2 t
    by (simp add: coalesce_def)
qed

text \<open>
  The claim as stated fails: an actor with role purchasing (actor 13) is refused by the
  two-argument gate for a total of 500, below the threshold of 1000.
\<close>

theorem can_approve_pr_purchasing_counterexample:
  "can_approve_pr demo_profiles demo_config (Some 13) (Some 500) = False"
  by (simp add: can_approve_pr_def role_of_def demo_profiles_def
      get_pr_approval_threshold_def demo_config_def coalesce_def)

section \<open>C2: an edit of an approved request resets the approval\<close>

lemma upsert_line_resets:
  assumes "select_pr s p = Some v_pr" and "pr_status v_pr = approved"
    and "assert_actor_exists s actor = None"
    and "p_description a = Some d" and "btrim d \<noteq> []" and "p_qty a \<noteq> None"
  shows "\<exists>l s'. upsert_purchase_request_line c p actor a s = Inr (l, s') \<and>
            approval_reset_done s s' (pr_id v_pr)"
proof -
  have p: "p = Some (pr_id v_pr)" using assms(1) by (rule select_pr_id)
  have sel: "select_pr s (Some (pr_id v_pr)) = Some v_pr" using assms(1) p by simp
  show ?thesis
    using assms sel
    by (auto simp: upsert_purchase_request_line_def Let_def approval_reset_done_def
        is_approval_reset_entry_def select_pr_update_pr p
        split: option.splits prod.splits)
qed

lemma upsert_line_0007_resets:
  assumes "select_pr s p = Some v_pr" and "pr_status v_pr = approved"
    and "assert_actor_exists s actor = None"
    and "p_description a = Some d" and "btrim d \<noteq> []"
  shows "\<exists>l s'. upsert_purchase_request_line_0007 c p proj actor a s = Inr (l, s') \<and>
            approval_reset_done s s' (pr_id v_pr)"
proof -
  have p: "p = Some (pr_id v_pr)" using assms(1) by (rule select_pr_id)
  have sel: "select_pr s (Some (pr_id v_pr)) = Some v_pr" using assms(1) p by simp
  show ?thesis
    using assms sel
    by (auto simp: upsert_purchase_request_line_0007_def Let_def approval_reset_done_def
        is_approval_reset_entry_def select_pr_update_pr p
        split: option.splits prod.splits)
qed

lemma header_update_resets:
  assumes "select_pr s p = Some v_pr" and "pr_status v_pr = approved"
    and "assert_actor_exists s actor = None"
    and "header_reset v_pr nd pri nt"
  shows "\<exists>r s'. update_purchase_request_header c p actor nd pri nt s = Inr (r, s') \<and>
            approval_reset_done s s' (pr_id v_pr)"
proof -
  have p: "p = Some (pr_id v_pr)" using assms(1) by (rule select_pr_id)
  have sel: "select_pr s (Some (pr_id v_pr)) = Some v_pr" using assms(1) p by simp
  show ?thesis
    using assms sel
    by (auto simp: update_purchase_request_header_def Let_def approval_reset_done_def
        is_approval_reset_entry_def select_pr_update_pr p
        split: option.splits prod.splits)
qed

text \<open>The same edits of a request that is not approved append the entry of the edit only.\<close>

lemma edit_without_approval_logs_once:
  assumes "select_pr s p = Some v_pr" and "pr_status v_pr \<noteq> approved"
  shows "upsert_purchase_request_line c p actor a s = Inr (l, s') \<Longrightarrow>
           \<exists>e. status_logs s' = status_logs s @ [e] \<and> \<not> is_approval_reset_entry (pr_id v_pr) e"
    and "update_purchase_request_header c p actor nd pri nt s = Inr (r, s2) \<Longrightarrow>
           \<exists>e. status_logs s2 = status_logs s @ [e] \<and> \<not> is_approval_reset_entry (pr_id v_pr) e"
  using assms
  by (auto simp: upsert_purchase_request_line_def update_purchase_request_header_def Let_def
      is_approval_reset_entry_def split: option.splits if_splits prod.splits)

text \<open>
  C2. Let request \<open>p\<close> be approved and the actor exist. An upsert of a line with a
  non-blank description (and, in migration 0009, a quantity) succeeds, and so does a
  header update in which a supplied field differs from the stored one; each leaves the
  request submitted with \<open>approved_by\<close> and \<open>approved_at\<close> null and appends two log
  entries, exactly one of which records the reset from approved to submitted (the other
  is the entry for the edit itself).
\<close>

theorem approval_reset_on_edit:
  assumes "select_pr s p = Some v_pr" and "pr_status v_pr = approved"
    and "assert_actor_exists s actor = None"
  shows "(p_description a = Some d \<and> btrim d \<noteq> [] \<and> p_qty a \<noteq> None \<longrightarrow>
            (\<exists>l s'. upsert_purchase_request_line c p actor a s = Inr (l, s') \<and>
                approval_reset_done s s' (pr_id v_pr))) \<and>
         (p_description a = Some d \<and> btrim d \<noteq> [] \<longrightarrow>
            (\<exists>l s'. upsert_purchase_request_line_0007 c p proj actor a s = Inr (l, s') \<and>
                approval_reset_done s s' (pr_id v_pr))) \<and>
         (header_reset v_pr nd pri nt \<longrightarrow>
            (\<exists>r s'. update_purchase_request_header c p actor nd pri nt s = Inr (r, s') \<and>
                approval_reset_done s s' (pr_id v_pr)))"
  using upsert_line_resets [OF assms] upsert_line_0007_resets [OF assms]
    header_update_resets [OF assms]
  by blast

theorem approval_reset_on_edit_witness:
  "select_pr demo_db (Some 103) = Some (demo_pr 103 approved (Some 12) (Some 8)) \<and>
   pr_status (demo_pr 103 approved (Some 12) (Some 8)) = approved \<and>
   assert_actor_exists demo_db (Some 11) = None \<and>
   p_description demo_line_args = Some ''washers'' \<and> btrim ''washers'' \<noteq> [] \<and>
   p_qty demo_line_args \<noteq> None \<and>
   header_reset (demo_pr 103 approved (Some 12) (Some 8)) None (Some ''high'') None \<and>
   (\<exists>l s'. upsert_purchase_request_line demo_ctx (Some 103) (Some 11) demo_line_args demo_db
              = Inr (l, s') \<and> approval_reset_done demo_db s' 103) \<and>
   (\<exists>l s'. upsert_purchase_request_line_0007 demo_ctx (Some 103) (Some 50) (Some 11)
              demo_line_args demo_db = Inr (l, s') \<and> approval_reset_done demo_db s' 103) \<and>
   (\<exists>r s'. update_purchase_request_header demo_ctx (Some 103) (Some 11) None (Some ''high'') None
              demo_db = Inr (r, s') \<and> approval_reset_done demo_db s' 103)"
proof -
  have h1: "select_pr demo_db (Some 103) = Some (demo_pr 103 approved (Some 12) (Some 8))" by simp
  have h2: "pr_status (demo_pr 103 approved (Some 12) (Some 8)) = approved" by simp
  have h3: "assert_actor_exists demo_db (Some 11) = None" by simp
  have h4: "p_description demo_line_args = Some ''washers'' \<and> btrim ''washers'' \<noteq> [] \<and>
            p_qty demo_line_args \<noteq> None"
    by (simp add: demo_line_args_def btrim_def)
  have h5: "header_reset (demo_pr 103 approved (Some 12) (Some 8)) None (Some ''high'') None"
    by (simp add: header_reset_def)
  show ?thesis
    using approval_reset_on_edit [OF h1 h2 h3, of demo_line_args "''washers''" demo_ctx
        "Some 50" None "Some ''high''" None] h1 h2 h3 h4 h5
    by simp
qed

section \<open>C3: the approval invariant\<close>

lemma find_unique:
  assumes "distinct (map key xs)" and "find (\<lambda>r. key r = i) xs = Some v"
    and "r \<in> set xs" and "key r = i"
  shows "r = v"
proof -
  from assms(2) have "v \<in> set xs" and "key v = i"
    by (auto simp: find_Some_iff)
  moreover from assms(1) have "inj_on key (set xs)"
    by (simp add: distinct_map)
  ultimately show ?thesis using assms(3,4) by (auto dest: inj_onD)
qed

lemma list_all_update_distinct:
  assumes "distinct (map key xs)" and "find (\<lambda>r. key r = i) xs = Some v"
    and "list_all P xs" and "P (f v)"
  shows "list_all P (map (\<lambda>r. if key r = i then f r else r) xs)"
  using assms find_unique [OF assms(1,2)]
  by (auto simp: list_all_iff)

lemma map_key_update:
  assumes "\<And>r. key (f r) = key r"
  shows "map key (map (\<lambda>r. if key r = i then f r else r) xs) = map key xs"
  by (induction xs) (simp_all add: assms)

lemma pr_table_ok_update_pr:
  assumes "pr_table_ok s" and "\<And>r. pr_id (f r) = pr_id r"
  shows "pr_table_ok (update_pr i f s)"
proof -
  have "map pr_id (purchase_requests (update_pr i f s)) = map pr_id (purchase_requests s)"
    using map_key_update [where key = pr_id and f = f, OF assms(2)] by (simp del: map_map)
  moreover have "list_all (\<lambda>r. pr_id r < id_supply s) (purchase_requests (update_pr i f s))"
    using assms by (auto simp: pr_table_ok_def list_all_iff)
  ultimately show ?thesis using assms(1) by (simp add: pr_table_ok_def del: update_pr_fields(7))
qed

lemma approval_invariant_update_pr:
  assumes "approval_invariant s" and "select_pr s (Some i) = Some v"
    and "approval_consistent (f v)" and "\<And>r. pr_id (f r) = pr_id r"
  shows "approval_invariant (update_pr i f s)"
proof -
  from assms(1) have ok: "pr_table_ok s" and all: "list_all approval_consistent (purchase_requests s)"
    by (simp_all add: approval_invariant_def)
  from ok have d: "distinct (map pr_id (purchase_requests s))" by (simp add: pr_table_ok_def)
  from assms(2) have f: "find (\<lambda>r. pr_id r = i) (purchase_requests s) = Some v"
    by (simp add: select_pr_def)
  have "list_all approval_consistent (purchase_requests (update_pr i f s))"
    using list_all_update_distinct [where key = pr_id and P = approval_consistent and f = f,
        OF d f all assms(3)] by simp
  with pr_table_ok_update_pr [OF ok assms(4)] show ?thesis
    by (simp add: approval_invariant_def)
qed

lemma approval_invariant_cong:
  assumes "approval_invariant s" and "purchase_requests s' = purchase_requests s"
    and "id_supply s \<le> id_supply s'"
  shows "approval_invariant s'"
  using assms by (auto simp: approval_invariant_def pr_table_ok_def list_all_iff)

lemma select_pr_consistent:
  "approval_invariant s \<Longrightarrow> select_pr s p = Some v \<Longrightarrow> approval_consistent v"
  by (cases p) (auto simp: approval_invariant_def select_pr_def list_all_iff find_Some_iff)

lemma submit_preserves:
  assumes "approval_invariant s" and "submit_purchase_request c p a m s = Inr (r, s')"
  shows "approval_invariant s'"
proof (cases "select_pr s p")
  case None
  with assms(2) show ?thesis
    by (simp add: submit_purchase_request_def split: option.splits)
next
  case (Some v)
  then have p: "p = Some (pr_id v)" by (rule select_pr_id)
  have cons: "approval_consistent v" using assms(1) Some by (rule select_pr_consistent)
  show ?thesis
  proof (cases "pr_status v = draft")
    case True
    let ?f = "\<lambda>r. r\<lparr>pr_status := submitted,
                 pr_updated_by := set_updated_at_and_by c a (pr_updated_by r),
                 pr_updated_at := now c\<rparr>"
    have "approval_consistent (?f v)" using cons True by (auto simp: approval_consistent_def)
    then have "approval_invariant (update_pr (pr_id v) ?f s)"
      using approval_invariant_update_pr [OF assms(1) Some [unfolded p]] by simp
    moreover have "s' = insert_status_log c ''purchase_request'' (pr_id v) (pr_project_id v)
                   (Some ''draft'') (Some ''submitted'') (coalesce m ''PR submitted'')
                   (JObj [(''pr_number'', JText (pr_number v))]) a
                   (update_pr (pr_id v) ?f s)"
      using assms(2) Some True
      by (simp add: submit_purchase_request_def Let_def split: option.splits)
    ultimately show ?thesis
      by (auto intro: approval_invariant_cong)
  next
    case False
    with assms Some show ?thesis
      by (auto simp: submit_purchase_request_def split: option.splits if_splits)
  qed
qed


lemma assert_actor_exists_None: "assert_actor_exists s a = None \<Longrightarrow> a \<noteq> None"
  by (auto simp: assert_actor_exists_def split: option.splits)

lemma approve_preserves:
  assumes "approval_invariant s" and "approve_purchase_request c p a m s = Inr (r, s')"
  shows "approval_invariant s'"
proof (cases "select_pr s p")
  case None
  with assms(2) show ?thesis
    by (simp add: approve_purchase_request_def split: option.splits)
next
  case (Some v)
  then have p: "p = Some (pr_id v)" by (rule select_pr_id)
  from assms(2) have act: "assert_actor_exists s a = None"
    by (simp add: approve_purchase_request_def split: option.splits)
  then have a: "a \<noteq> None" by (rule assert_actor_exists_None)
  let ?f = "\<lambda>r. r\<lparr>pr_status := approved, pr_approved_by := a, pr_approved_at := Some (now c),
               pr_updated_by := set_updated_at_and_by c a (pr_updated_by r),
               pr_updated_at := now c\<rparr>"
  have "approval_consistent (?f v)" using a by (auto simp: approval_consistent_def)
  then have inv: "approval_invariant (update_pr (pr_id v) ?f s)"
    using approval_invariant_update_pr [OF assms(1) Some [unfolded p]] by simp
  from assms(2) Some act
  have "\<exists>md msg. s' = insert_status_log c ''purchase_request'' (pr_id v) (pr_project_id v)
                   (Some ''submitted'') (Some ''approved'') msg md a (update_pr (pr_id v) ?f s)"
    by (auto simp: approve_purchase_request_def Let_def split: if_splits)
  with inv show ?thesis
    by (auto intro: approval_invariant_cong)
qed

lemma reject_preserves:
  assumes "approval_invariant s" and "reject_purchase_request c p a m s = Inr (r, s')"
  shows "approval_invariant s'"
proof (cases "select_pr s p")
  case None
  with assms(2) show ?thesis
    by (simp add: reject_purchase_request_def split: option.splits)
next
  case (Some v)
  then have p: "p = Some (pr_id v)" by (rule select_pr_id)
  from assms(2) have act: "assert_actor_exists s a = None"
    by (simp add: reject_purchase_request_def split: option.splits)
  let ?f = "\<lambda>r. r\<lparr>pr_status := rejected, pr_approved_by := None, pr_approved_at := None,
               pr_updated_by := set_updated_at_and_by c a (pr_updated_by r),
               pr_updated_at := now c\<rparr>"
  have "approval_consistent (?f v)" by (auto simp: approval_consistent_def)
  then have inv: "approval_invariant (update_pr (pr_id v) ?f s)"
    using approval_invariant_update_pr [OF assms(1) Some [unfolded p]] by simp
  from assms(2) Some act
  have "\<exists>md msg fs. s' = insert_status_log c ''purchase_request'' (pr_id v) (pr_project_id v)
                   fs (Some ''rejected'') msg md a (update_pr (pr_id v) ?f s)"
    by (auto simp: reject_purchase_request_def Let_def split: if_splits)
  with inv show ?thesis
    by (auto intro: approval_invariant_cong)
qed

lemma reset_approval_consistent: "approval_consistent (reset_approval c a r)"
  by (simp add: approval_consistent_def)

lemma header_preserves:
  assumes "approval_invariant s" and "update_purchase_request_header c p a nd pri nt s = Inr (r, s')"
  shows "approval_invariant s'"
proof (cases "select_pr s p")
  case None
  with assms(2) show ?thesis
    by (simp add: update_purchase_request_header_def split: option.splits)
next
  case (Some v)
  then have p: "p = Some (pr_id v)" by (rule select_pr_id)
  have cons: "approval_consistent v" using assms(1) Some by (rule select_pr_consistent)
  from assms(2) have act: "assert_actor_exists s a = None"
    by (simp add: update_purchase_request_header_def split: option.splits)
  let ?f = "\<lambda>r. r\<lparr>pr_needed_by_date := coalesce_opt nd (pr_needed_by_date r),
               pr_priority := coalesce_opt pri (pr_priority r),
               pr_notes := coalesce_opt nt (pr_notes r),
               pr_updated_by := set_updated_at_and_by c a (pr_updated_by r),
               pr_updated_at := now c\<rparr>"
  have "approval_consistent (?f v)" using cons by (auto simp: approval_consistent_def)
  then have inv1: "approval_invariant (update_pr (pr_id v) ?f s)"
    using approval_invariant_update_pr [OF assms(1) Some [unfolded p]] by simp
  have sel1: "select_pr (update_pr (pr_id v) ?f s) (Some (pr_id v)) = Some (?f v)"
    using Some p by (simp add: select_pr_update_pr)
  have inv2: "approval_invariant (update_pr (pr_id v) (reset_approval c a) (update_pr (pr_id v) ?f s))"
    using approval_invariant_update_pr [OF inv1 sel1 reset_approval_consistent] by simp
  from assms(2) Some act
  have "purchase_requests s' = purchase_requests (update_pr (pr_id v) ?f s) \<and> id_supply s' = id_supply s
        \<or> purchase_requests s' = purchase_requests
             (update_pr (pr_id v) (reset_approval c a) (update_pr (pr_id v) ?f s)) \<and>
           id_supply s' = id_supply s"
    by (auto simp: update_purchase_request_header_def Let_def split: if_splits)
  then show ?thesis
    using inv1 inv2 by (auto intro: approval_invariant_cong)
qed

lemma upsert_line_preserves:
  assumes "approval_invariant s" and "upsert_purchase_request_line c p a args s = Inr (l, s')"
  shows "approval_invariant s'"
proof (cases "select_pr s p")
  case None
  with assms(2) show ?thesis
    by (simp add: upsert_purchase_request_line_def split: option.splits)
next
  case (Some v)
  then have p: "p = Some (pr_id v)" by (rule select_pr_id)
  have sel: "select_pr s (Some (pr_id v)) = Some v" using Some p by simp
  have inv2: "approval_invariant (update_pr (pr_id v) (reset_approval c a) s)"
    using approval_invariant_update_pr [OF assms(1) sel reset_approval_consistent] by simp
  from assms(2) Some
  have "purchase_requests s' = purchase_requests s \<and> id_supply s \<le> id_supply s'
        \<or> purchase_requests s' = purchase_requests (update_pr (pr_id v) (reset_approval c a) s) \<and>
           id_supply s \<le> id_supply s'"
    by (auto simp: upsert_purchase_request_line_def Let_def
        split: option.splits if_splits prod.splits)
  then show ?thesis
    using assms(1) inv2 by (auto intro: approval_invariant_cong)
qed

lemma next_pr_number_frame:
  assumes "next_pr_number c s = Inr (n, s1)"
  shows "purchase_requests s1 = purchase_requests s" and "id_supply s1 = id_supply s"
    and "status_logs s1 = status_logs s" and "profiles s1 = profiles s"
  using assms by (auto simp: next_pr_number_def Let_def split: if_splits)

lemma create_preserves:
  assumes "approval_invariant s" and "create_purchase_request c pj a nd pri nt s = Inr (r, s')"
  shows "approval_invariant s'"
proof -
  from assms(2) obtain n s1 where n: "next_pr_number c s = Inr (n, s1)"
    by (auto simp: create_purchase_request_def split: option.splits if_splits sum.splits)
  note fr = next_pr_number_frame [OF n]
  from assms(2) n
  have "\<exists>row. purchase_requests s' = purchase_requests s @ [row] \<and> pr_id row = id_supply s \<and>
          pr_status row = draft \<and> pr_approved_by row = None \<and> pr_approved_at row = None \<and>
          id_supply s' = Suc (id_supply s)"
    by (auto simp: create_purchase_request_def Let_def fr split: option.splits if_splits)
  then obtain row where row: "purchase_requests s' = purchase_requests s @ [row]"
      "pr_id row = id_supply s" "approval_consistent row" "id_supply s' = Suc (id_supply s)"
    by (auto simp: approval_consistent_def)
  from assms(1) have old: "distinct (map pr_id (purchase_requests s))"
      "\<forall>r\<in>set (purchase_requests s). pr_id r < id_supply s"
      "\<forall>r\<in>set (purchase_requests s). approval_consistent r"
    by (simp_all add: approval_invariant_def pr_table_ok_def list_all_iff)
  have "pr_id row \<notin> pr_id ` set (purchase_requests s)"
    using old(2) row(2) by auto
  moreover have "\<forall>r\<in>set (purchase_requests s). pr_id r < Suc (id_supply s)"
    using old(2) by (auto intro: less_SucI)
  ultimately show ?thesis
    using old row by (simp add: approval_invariant_def pr_table_ok_def list_all_iff)
qed

lemma approve_0005_effect:
  assumes "approve_purchase_request_0005 c p a ap m s = Inr (r, s')"
  shows "\<exists>v. select_pr s (Some (pr_id v)) = Some v \<and> a \<noteq> None \<and>
           purchase_requests s' = purchase_requests (update_pr (pr_id v)
             (\<lambda>r. r\<lparr>pr_status := (if ap = Some True then approved else rejected),
                      pr_approved_by := a, pr_approved_at := Some (now c),
                      pr_updated_by := set_updated_at_and_by c a (pr_updated_by r),
                      pr_updated_at := now c\<rparr>) s) \<and>
           id_supply s' = id_supply s"
proof (cases "select_pr s p")
  case None
  with assms show ?thesis
    by (simp add: approve_purchase_request_0005_def split: option.splits)
next
  case (Some v)
  then have p: "p = Some (pr_id v)" by (rule select_pr_id)
  from assms have act: "assert_actor_exists s a = None"
    by (simp add: approve_purchase_request_0005_def split: option.splits)
  then have a: "a \<noteq> None" by (rule assert_actor_exists_None)
  from assms Some act a p show ?thesis
    by (intro exI [of _ v]) (auto simp: approve_purchase_request_0005_def Let_def split: if_splits)
qed

lemma approve_0005_paired:
  assumes "list_all approver_paired (purchase_requests s)"
    and "approve_purchase_request_0005 c p a ap m s = Inr (r, s')"
  shows "list_all approver_paired (purchase_requests s')"
  using approve_0005_effect [OF assms(2)] assms(1)
  by (auto simp: list_all_iff approver_paired_def)

lemma approve_0005_true_preserves:
  assumes "approval_invariant s"
    and "approve_purchase_request_0005 c p a (Some True) m s = Inr (r, s')"
  shows "approval_invariant s'"
proof -
  let ?f = "\<lambda>r. r\<lparr>pr_status := (if Some True = Some True then approved else rejected),
                      pr_approved_by := a, pr_approved_at := Some (now c),
                      pr_updated_by := set_updated_at_and_by c a (pr_updated_by r),
                      pr_updated_at := now c\<rparr>"
  from approve_0005_effect [OF assms(2)] obtain v where
    v: "select_pr s (Some (pr_id v)) = Some v" "a \<noteq> None"
      "purchase_requests s' = purchase_requests (update_pr (pr_id v) ?f s)"
      "id_supply s' = id_supply s"
    by blast
  have "approval_consistent (?f v)" using v(2) by (auto simp: approval_consistent_def)
  then have "approval_invariant (update_pr (pr_id v) ?f s)"
    using approval_invariant_update_pr [OF assms(1) v(1)] by simp
  then show ?thesis
    using v(3,4) by (auto intro: approval_invariant_cong)
qed

lemma approval_invariant_paired:
  "approval_invariant s \<Longrightarrow> list_all approver_paired (purchase_requests s)"
  by (auto simp: approval_invariant_def list_all_iff approval_consistent_def approver_paired_def)

lemma run_operation_preserves:
  assumes "approval_invariant s" and "run_operation c op s = Inr s'"
  shows "approval_invariant s'"
proof (cases op)
  case (Create pj a nd pri nt)
  then show ?thesis
    using create_preserves [OF assms(1)] assms(2) by (auto simp: map_sum_def split: sum.splits)
next
  case (UpdateHeader p a nd pri nt)
  then show ?thesis
    using header_preserves [OF assms(1)] assms(2) by (auto simp: map_sum_def split: sum.splits)
next
  case (UpsertLine p a args)
  then show ?thesis
    using upsert_line_preserves [OF assms(1)] assms(2) by (auto simp: map_sum_def split: sum.splits)
next
  case (Submit p a m)
  then show ?thesis
    using submit_preserves [OF assms(1)] assms(2) by (auto simp: map_sum_def split: sum.splits)
next
  case (Approve p a m)
  then show ?thesis
    using approve_preserves [OF assms(1)] assms(2) by (auto simp: map_sum_def split: sum.splits)
next
  case (Reject p a m)
  then show ?thesis
    using reject_preserves [OF assms(1)] assms(2) by (auto simp: map_sum_def split: sum.splits)
qed

text \<open>
  C3, as the code has it. Every lifecycle operation of migration 0009 (create, header
  update, line upsert, submit, approve, reject) keeps the invariant that, for every
  request, \<open>approved_by\<close> is non-null exactly when the status is approved and
  \<open>approved_by\<close> and \<open>approved_at\<close> are null together. The combined approve/reject
  function of migration 0005 writes \<open>approved_by\<close> and \<open>approved_at\<close> together, and
  keeps the whole invariant when it approves.
\<close>

theorem approval_invariant_preserved:
  assumes "approval_invariant s"
  shows "(run_operation c op s = Inr s' \<longrightarrow> approval_invariant s') \<and>
         (approve_purchase_request_0005 c p a ap m s = Inr (r, s2) \<longrightarrow>
            list_all approver_paired (purchase_requests s2) \<and>
            (ap = Some True \<longrightarrow> approval_invariant s2))"
  using run_operation_preserves [OF assms] approve_0005_paired [OF approval_invariant_paired [OF assms]]
    approve_0005_true_preserves [OF assms]
  by blast

text \<open>A database without requests satisfies the invariant, so every database the
  operations build from one does.\<close>

lemma approval_invariant_empty: "purchase_requests s = [] \<Longrightarrow> approval_invariant s"
  by (simp add: approval_invariant_def pr_table_ok_def)

lemma demo_invariant: "approval_invariant demo_db"
  by (simp add: approval_invariant_def pr_table_ok_def approval_consistent_def)

lemma demo_total_102: "pr_est_total demo_db 102 = 20"
  by (simp add: pr_est_total_def demo_line_def est_ext_cost_def sql_sum_def
      coalesce_def List.map_filter_def)

lemma demo_gate_12: "can_approve_pr demo_profiles demo_config (Some 12) (Some 20)"
  by (simp add: can_approve_pr_def role_of_def get_pr_approval_threshold_def coalesce_def
      demo_profiles_def demo_config_def)

theorem approval_invariant_preserved_witness:
  "approval_invariant demo_db \<and>
   (\<exists>s'. run_operation demo_ctx (Approve (Some 102) (Some 12) None) demo_db = Inr s' \<and>
          approval_invariant s') \<and>
   (\<exists>r s2. approve_purchase_request_0005 demo_ctx (Some 102) (Some 12) (Some True) None demo_db
              = Inr (r, s2) \<and>
            list_all approver_paired (purchase_requests s2) \<and> approval_invariant s2)"
proof -
  obtain s' where run: "run_operation demo_ctx (Approve (Some 102) (Some 12) None) demo_db = Inr s'"
    by (simp add: approve_purchase_request_def demo_total_102 demo_gate_12 Let_def)
  obtain r s2 where run2:
    "approve_purchase_request_0005 demo_ctx (Some 102) (Some 12) (Some True) None demo_db = Inr (r, s2)"
    by (simp add: approve_purchase_request_0005_def Let_def)
  show ?thesis
    using approval_invariant_preserved [OF demo_invariant, of demo_ctx
        "Approve (Some 102) (Some 12) None" s' "Some 102" "Some 12" "Some True" None r s2]
      run run2 demo_invariant
    by simp
qed

text \<open>
  The claim as stated fails on the combined function of migration 0005: rejecting the
  submitted request 102 through it (\<open>p_approve = false\<close>) leaves the request rejected
  with \<open>approved_by\<close> set to the rejecting actor 12.
\<close>

theorem approve_0005_reject_counterexample:
  "approval_invariant demo_db \<and>
   map_option pr_status (returned (approve_purchase_request_0005 demo_ctx (Some 102) (Some 12)
      (Some False) None demo_db)) = Some rejected \<and>
   map_option pr_approved_by (returned (approve_purchase_request_0005 demo_ctx (Some 102) (Some 12)
      (Some False) None demo_db)) = Some (Some 12) \<and>
   map_option approval_invariant (result_db (approve_purchase_request_0005 demo_ctx (Some 102)
      (Some 12) (Some False) None demo_db)) = Some False"
  by (simp add: demo_invariant approve_purchase_request_0005_def Let_def returned_def
      result_db_def approval_invariant_def [of "insert_status_log _ _ _ _ _ _ _ _ _ _"]
      approval_consistent_def)

section \<open>C4 and C8: submitting a request\<close>

lemma submit_0005_requires_line:
  assumes "select_pr s p = Some v" and "pr_status v = draft"
    and "assert_actor_exists s a = None"
  shows "(active_line_count s (pr_id v) = 0 \<longrightarrow>
            submit_purchase_request_0005 c p a m s
              = Inl (ValidationError, ''Cannot submit PR with zero lines'')) \<and>
         (0 < active_line_count s (pr_id v) \<longrightarrow>
            (\<exists>r s'. submit_purchase_request_0005 c p a m s = Inr (r, s') \<and>
                pr_status r = submitted \<and> select_pr s' p = Some r))"
proof -
  have p: "p = Some (pr_id v)" using assms(1) by (rule select_pr_id)
  have sel: "select_pr s (Some (pr_id v)) = Some v" using assms(1) p by simp
  show ?thesis
    using assms sel
    by (auto simp: submit_purchase_request_0005_def Let_def select_pr_update_pr p)
qed

lemma rpc_pr_submit_requires_line:
  assumes "select_rq s p = Some v" and "rq_status v = draft" and "auth_uid c = Some u"
    and "rq_created_by v = Some u"
  shows "(pr_lines_of s (rq_id v) = [] \<longrightarrow>
            rpc_pr_submit c p s = Inl (ValidationError, ''Add at least one line before submitting'')) \<and>
         (pr_lines_of s (rq_id v) \<noteq> [] \<longrightarrow> (\<exists>s'. rpc_pr_submit c p s = Inr s'))"
  using assms by (auto simp: rpc_pr_submit_def)

lemma submit_0009_ignores_lines:
  assumes "select_pr s p = Some v" and "pr_status v = draft"
    and "assert_actor_exists s a = None"
  shows "\<exists>r s'. submit_purchase_request c p a m s = Inr (r, s') \<and> pr_status r = submitted \<and>
           select_pr s' p = Some r"
proof -
  have p: "p = Some (pr_id v)" using assms(1) by (rule select_pr_id)
  have sel: "select_pr s (Some (pr_id v)) = Some v" using assms(1) p by simp
  show ?thesis
    using assms sel
    by (auto simp: submit_purchase_request_def Let_def select_pr_update_pr p)
qed

text \<open>
  C4 at the failing input. Request 100 is a draft without any line. The
  \<open>submit_purchase_request\<close> of migration 0009 accepts it and returns it as submitted,
  where the function of the same name in migration 0005 raises
  \<open>Cannot submit PR with zero lines\<close>.
\<close>

theorem submit_0009_accepts_empty_draft:
  "active_line_count demo_db 100 = 0 \<and>
   map_option pr_status (returned (submit_purchase_request demo_ctx (Some 100) (Some 11) None demo_db))
     = Some submitted \<and>
   submit_purchase_request_0005 demo_ctx (Some 100) (Some 11) None demo_db
     = Inl (ValidationError, ''Cannot submit PR with zero lines'')"
  by (simp add: active_line_count_def demo_line_def submit_purchase_request_def
      submit_purchase_request_0005_def Let_def returned_def)

text \<open>
  C8, as the code has it. With an existing actor, \<open>submit_purchase_request\<close> of
  migration 0009 on a request that is already submitted returns the stored row and
  leaves the whole database, log included, as it was.
\<close>

theorem submit_submitted_is_noop:
  assumes "select_pr s p = Some v" and "pr_status v = submitted"
    and "assert_actor_exists s a = None"
  shows "submit_purchase_request c p a m s = Inr (v, s)"
  using assms by (simp add: submit_purchase_request_def)

theorem submit_submitted_is_noop_witness:
  "select_pr demo_db (Some 102) = Some (demo_pr 102 submitted None None) \<and>
   pr_status (demo_pr 102 submitted None None) = submitted \<and>
   assert_actor_exists demo_db (Some 11) = None \<and>
   submit_purchase_request demo_ctx (Some 102) (Some 11) None demo_db
     = Inr (demo_pr 102 submitted None None, demo_db)"
proof -
  have h1: "select_pr demo_db (Some 102) = Some (demo_pr 102 submitted None None)" by simp
  have h2: "pr_status (demo_pr 102 submitted None None) = submitted" by simp
  have h3: "assert_actor_exists demo_db (Some 11) = None" by simp
  show ?thesis
    using submit_submitted_is_noop [OF h1 h2 h3, of demo_ctx None] h1 h2 h3 by simp
qed

text \<open>
  The claim as stated fails on the \<open>submit_purchase_request\<close> of migration 0005: on
  the submitted request 102 it raises \<open>Only draft PRs can be submitted\<close>.
\<close>

theorem submit_0005_resubmit_counterexample:
  "submit_purchase_request_0005 demo_ctx (Some 102) (Some 11) None demo_db
     = Inl (InvalidState, ''Only draft PRs can be submitted'')"
  by (simp add: submit_purchase_request_0005_def)

section \<open>C10: null parameters of the header update\<close>

lemma header_0009_frame:
  assumes "select_pr s p = Some v"
    and "update_purchase_request_header c p a nd pri nt s = Inr (r, s')"
  shows "select_pr s' p = Some r"
    and "pr_needed_by_date r = coalesce_opt nd (pr_needed_by_date v)"
    and "pr_priority r = coalesce_opt pri (pr_priority v)"
    and "pr_notes r = coalesce_opt nt (pr_notes v)"
proof -
  have p: "p = Some (pr_id v)" using assms(1) by (rule select_pr_id)
  have sel: "select_pr s (Some (pr_id v)) = Some v" using assms(1) p by simp
  show "select_pr s' p = Some r"
    using assms sel
    by (auto simp: update_purchase_request_header_def Let_def select_pr_update_pr p
        split: option.splits if_splits)
  show "pr_needed_by_date r = coalesce_opt nd (pr_needed_by_date v)"
    using assms
    by (auto simp: update_purchase_request_header_def Let_def reset_approval_def
        split: option.splits if_splits)
  show "pr_priority r = coalesce_opt pri (pr_priority v)"
    using assms
    by (auto simp: update_purchase_request_header_def Let_def reset_approval_def
        split: option.splits if_splits)
  show "pr_notes r = coalesce_opt nt (pr_notes v)"
    using assms
    by (auto simp: update_purchase_request_header_def Let_def reset_approval_def
        split: option.splits if_splits)
qed

lemma header_0007_frame:
  assumes "select_pr s p = Some v"
    and "update_purchase_request_header_0007 c p a nd pri nt s = Inr (r, s')"
  shows "select_pr s' p = Some r"
    and "pr_needed_by_date r = coalesce_opt nd (pr_needed_by_date v)"
    and "pr_priority r = coalesce_opt pri (pr_priority v)"
    and "pr_notes r = coalesce_opt nt (pr_notes v)"
proof -
  have p: "p = Some (pr_id v)" using assms(1) by (rule select_pr_id)
  have sel: "select_pr s (Some (pr_id v)) = Some v" using assms(1) p by simp
  show "select_pr s' p = Some r"
    using assms sel
    by (auto simp: update_purchase_request_header_0007_def Let_def select_pr_update_pr p
        split: option.splits if_splits)
  show "pr_needed_by_date r = coalesce_opt nd (pr_needed_by_date v)"
    using assms
    by (auto simp: update_purchase_request_header_0007_def Let_def split: option.splits if_splits)
  show "pr_priority r = coalesce_opt pri (pr_priority v)"
    using assms
    by (auto simp: update_purchase_request_header_0007_def Let_def split: option.splits if_splits)
  show "pr_notes r = coalesce_opt nt (pr_notes v)"
    using assms
    by (auto simp: update_purchase_request_header_0007_def Let_def split: option.splits if_splits)
qed

lemma coalesce_opt_None [simp]: "coalesce_opt None y = y"
  by (simp add: coalesce_opt_def)

lemma coalesce_opt_keeps: "y \<noteq> None \<Longrightarrow> coalesce_opt x y \<noteq> None"
  by (cases x) (simp_all add: coalesce_opt_def)

text \<open>
  What a successful header update leaves of the three fields: the row returned is the
  row stored; a field whose parameter is null keeps its stored value, whatever that
  value is; and a field that held a value still holds one.
\<close>

definition header_fields_kept ::
  "purchase_request \<Rightarrow> purchase_request \<Rightarrow> nat option \<Rightarrow> string option \<Rightarrow> string option \<Rightarrow> bool" where
  "header_fields_kept v r nd pri nt =
     ((nd = None \<longrightarrow> pr_needed_by_date r = pr_needed_by_date v) \<and>
      (pri = None \<longrightarrow> pr_priority r = pr_priority v) \<and>
      (nt = None \<longrightarrow> pr_notes r = pr_notes v) \<and>
      (pr_needed_by_date v \<noteq> None \<longrightarrow> pr_needed_by_date r \<noteq> None) \<and>
      (pr_priority v \<noteq> None \<longrightarrow> pr_priority r \<noteq> None) \<and>
      (pr_notes v \<noteq> None \<longrightarrow> pr_notes r \<noteq> None))"

text \<open>
  C10, as the code has it. For \<open>update_purchase_request_header\<close> of migrations 0009
  and 0007: passing null for \<open>needed_by_date\<close>, \<open>priority\<close> or \<open>notes\<close> leaves the
  stored field unchanged for every stored value, and none of the three can be cleared
  to null by the function.
\<close>

theorem header_null_keeps_field:
  assumes "select_pr s p = Some v"
  shows "(update_purchase_request_header c p a nd pri nt s = Inr (r, s') \<longrightarrow>
            select_pr s' p = Some r \<and> header_fields_kept v r nd pri nt) \<and>
         (update_purchase_request_header_0007 c p a nd pri nt s = Inr (r2, s2) \<longrightarrow>
            select_pr s2 p = Some r2 \<and> header_fields_kept v r2 nd pri nt)"
  using header_0009_frame [OF assms, of c a nd pri nt r s']
    header_0007_frame [OF assms, of c a nd pri nt r2 s2]
  by (auto simp: header_fields_kept_def coalesce_opt_keeps)

theorem header_null_keeps_field_witness:
  "select_pr demo_db (Some 101) = Some (demo_pr 101 draft None None) \<and>
   (\<exists>r s'. update_purchase_request_header demo_ctx (Some 101) (Some 11) None (Some ''high'') None
              demo_db = Inr (r, s') \<and>
            select_pr s' (Some 101) = Some r \<and>
            header_fields_kept (demo_pr 101 draft None None) r None (Some ''high'') None \<and>
            pr_needed_by_date r = Some 20 \<and> pr_priority r = Some ''high'' \<and>
            pr_notes r = Some ''site A'') \<and>
   (\<exists>r s'. update_purchase_request_header_0007 demo_ctx (Some 101) (Some 11) None None None
              demo_db = Inr (r, s') \<and>
            select_pr s' (Some 101) = Some r \<and>
            header_fields_kept (demo_pr 101 draft None None) r None None None)"
proof -
  have h: "select_pr demo_db (Some 101) = Some (demo_pr 101 draft None None)" by simp
  obtain r s' where run:
    "update_purchase_request_header demo_ctx (Some 101) (Some 11) None (Some ''high'') None demo_db
       = Inr (r, s')"
    by (simp add: update_purchase_request_header_def Let_def)
  obtain r2 s2 where run2:
    "update_purchase_request_header_0007 demo_ctx (Some 101) (Some 11) None None None demo_db
       = Inr (r2, s2)"
    by (simp add: update_purchase_request_header_0007_def Let_def)
  have vals: "pr_needed_by_date r = Some 20 \<and> pr_priority r = Some ''high'' \<and>
              pr_notes r = Some ''site A''"
    using header_0009_frame(2-4) [OF h run] by (simp add: coalesce_opt_def)
  show ?thesis
    using header_null_keeps_field [OF h, of demo_ctx "Some 11" None "Some ''high''" None r s']
      header_null_keeps_field [OF h, of demo_ctx "Some 11" None None None _ _ r2 s2]
      run run2 h vals
    by simp
qed

text \<open>
  The claim as stated fails for the line upsert: \<open>upsert_purchase_request_line\<close>
  (migration 0009) assigns \<open>uom = p_uom\<close> directly, so updating line 201, whose unit is
  \<open>ea\<close>, with a null \<open>p_uom\<close> clears the unit.
\<close>

theorem line_upsert_clears_uom_counterexample:
  "prl_uom (demo_line 201 101) = Some ''ea'' \<and>
   map_option prl_uom (returned (upsert_purchase_request_line demo_ctx (Some 101) (Some 11)
      demo_edit_args demo_db)) = Some None"
  by (simp add: demo_line_def upsert_purchase_request_line_def Let_def returned_def
      demo_edit_args_def existing_line_def btrim_def)

section \<open>C7: marking a receipt received\<close>

lemma update_receipt_fields [simp]:
  "profiles (update_receipt i f s) = profiles s"
  "receipt_lines (update_receipt i f s) = receipt_lines s"
  "status_logs (update_receipt i f s) = status_logs s"
  "receipts (update_receipt i f s) = map (\<lambda>r. if rc_id r = i then f r else r) (receipts s)"
  by (simp_all add: update_receipt_def)

lemma select_receipt_id: "select_receipt s p = Some r \<Longrightarrow> p = Some (rc_id r)"
  by (auto simp: select_receipt_def find_Some_iff split: option.splits)

lemma select_receipt_update:
  assumes "\<And>r. rc_id (f r) = rc_id r"
  shows "select_receipt (update_receipt i f s) (Some i) = map_option f (select_receipt s (Some i))"
  by (simp add: select_receipt_def find_map_update [where key = rc_id, OF assms])

lemma select_receipt_insert_status_log [simp]:
  "select_receipt (insert_status_log c et ei pj fs ts m md cb s) p = select_receipt s p"
  by (cases p) (simp_all add: select_receipt_def)

lemma mark_received_effect:
  assumes "select_receipt s p = Some v"
    and "mark_receipt_received col c p a m s = Inr (r, s')"
  shows "rc_status r = (if 0 < unlinked_lines s (rc_id v) then received else reconciled)"
    and "select_receipt s' p = Some r"
    and "rc_received_at r = Some (now c)" and "rc_received_by r = a"
    and "col = StatusText"
proof -
  have p: "p = Some (rc_id v)" using assms(1) by (rule select_receipt_id)
  have sel: "select_receipt s (Some (rc_id v)) = Some v" using assms(1) p by simp
  show "rc_status r = (if 0 < unlinked_lines s (rc_id v) then received else reconciled)"
    using assms
    by (auto simp: mark_receipt_received_def Let_def split: option.splits if_splits)
  show "select_receipt s' p = Some r"
    using assms sel
    by (auto simp: mark_receipt_received_def Let_def select_receipt_update p
        split: option.splits if_splits)
  show "rc_received_at r = Some (now c)" and "rc_received_by r = a"
    using assms
    by (auto simp: mark_receipt_received_def Let_def split: option.splits if_splits)
  show "col = StatusText"
    using assms
    by (cases col) (auto simp: mark_receipt_received_def Let_def split: option.splits if_splits)
qed

lemma mark_received_succeeds:
  assumes "select_receipt s p = Some v" and "assert_actor_exists s a = None"
    and "can_receive c s" and "rc_status v \<noteq> rcancelled"
  shows "\<exists>r s'. mark_receipt_received StatusText c p a m s = Inr (r, s')"
  using assms by (simp add: mark_receipt_received_def Let_def)

text \<open>With an enum status column every call that passes the checks raises.\<close>

lemma mark_received_enum_raises:
  assumes "select_receipt s p = Some v" and "assert_actor_exists s a = None"
    and "can_receive c s" and "rc_status v \<noteq> rcancelled"
  shows "mark_receipt_received StatusEnum c p a m s
           = Inl (DatatypeMismatch,
                ''column status is of type receipt_status but expression is of type text'')"
  using assms by (simp add: mark_receipt_received_def Let_def)

text \<open>
  With a text status column the status follows the count of lines without an order
  line: received when there is one, reconciled when there is none.
\<close>

lemma mark_received_status_rule:
  assumes "select_receipt s p = Some v" and "assert_actor_exists s a = None"
    and "can_receive c s" and "rc_status v \<noteq> rcancelled"
  shows "\<exists>r s'. mark_receipt_received StatusText c p a m s = Inr (r, s') \<and>
           select_receipt s' p = Some r \<and>
           rc_status r = (if 0 < unlinked_lines s (rc_id v) then received else reconciled)"
proof -
  from mark_received_succeeds [OF assms] obtain r s' where
    run: "mark_receipt_received StatusText c p a m s = Inr (r, s')" by blast
  with mark_received_effect(1,2) [OF assms(1) run] show ?thesis by blast
qed

text \<open>
  The generic \<open>set_receipt_status\<close> stamps \<open>received_at\<close> and \<open>received_by\<close> only on
  a transition into received and only while they are null.
\<close>

lemma set_receipt_status_effect:
  assumes "select_receipt s p = Some v"
    and "set_receipt_status c p st a m s = Inr (r, s')"
  shows "select_receipt s' p = Some r"
    and "rc_status r = st"
    and "rc_received_at r =
           (if st = received \<and> rc_received_at v = None then Some (now c) else rc_received_at v)"
    and "rc_received_by r =
           (if st = received \<and> rc_received_by v = None then a else rc_received_by v)"
proof -
  have p: "p = Some (rc_id v)" using assms(1) by (rule select_receipt_id)
  have sel: "select_receipt s (Some (rc_id v)) = Some v" using assms(1) p by simp
  show "select_receipt s' p = Some r"
    using assms sel
    by (auto simp: set_receipt_status_def Let_def select_receipt_update p split: option.splits)
  show "rc_status r = st"
    using assms by (auto simp: set_receipt_status_def Let_def split: option.splits)
  show "rc_received_at r =
           (if st = received \<and> rc_received_at v = None then Some (now c) else rc_received_at v)"
    using assms by (auto simp: set_receipt_status_def Let_def split: option.splits)
  show "rc_received_by r =
           (if st = received \<and> rc_received_by v = None then a else rc_received_by v)"
    using assms by (auto simp: set_receipt_status_def Let_def split: option.splits)
qed

lemma create_receipt_0007_stamps_receiver:
  assumes "create_receipt_0007 c pj a vd po loc nt s = Inr (r, s')"
  shows "rc_status r = pending \<and> rc_received_at r = None \<and> rc_received_by r = a \<and> a \<noteq> None"
  using assms
  by (auto simp: create_receipt_0007_def Let_def assert_actor_exists_def
      split: option.splits if_splits)

lemma demo_select_receipt [simp]: "select_receipt demo_db (Some 300) = Some demo_receipt"
  by (simp add: select_receipt_def demo_receipt_def)

lemma demo_can_receive [simp]: "can_receive demo_ctx_shop demo_db"
  by (simp add: can_receive_def current_user_role_def role_of_def demo_ctx_shop_def
      demo_profiles_def coalesce_def)

lemma demo_ctx_shop_fields [simp]:
  "auth_uid demo_ctx_shop = Some 14" "now demo_ctx_shop = 9"
  by (simp_all add: demo_ctx_shop_def)

lemma demo_receipt_fields [simp]:
  "rc_id demo_receipt = 300" "rc_status demo_receipt = received"
  "rc_received_at demo_receipt = Some 5" "rc_received_by demo_receipt = Some 14"
  by (simp_all add: demo_receipt_def)

text \<open>
  C7 at the failing input. Receipt 300 was received at time 5 by actor 14 and has one
  line without an order line. Marked received again at time 9 with actor 11 in the
  session of the shop user 14, \<open>mark_receipt_received\<close> (status column of type text)
  keeps the status received and overwrites both stamps with 9 and 11, where the generic
  \<open>set_receipt_status\<close> on the same input keeps 5 and 14. With a status column of the
  enum type the same call raises and sets neither status nor stamps.
\<close>

theorem mark_received_restamps:
  "rc_received_at demo_receipt = Some 5 \<and> rc_received_by demo_receipt = Some 14 \<and>
   unlinked_lines demo_db 300 = 1 \<and>
   map_option rc_status (returned (mark_receipt_received StatusText demo_ctx_shop (Some 300)
      (Some 11) None demo_db)) = Some received \<and>
   map_option rc_received_at (returned (mark_receipt_received StatusText demo_ctx_shop (Some 300)
      (Some 11) None demo_db)) = Some (Some 9) \<and>
   map_option rc_received_by (returned (mark_receipt_received StatusText demo_ctx_shop (Some 300)
      (Some 11) None demo_db)) = Some (Some 11) \<and>
   map_option rc_received_at (returned (set_receipt_status demo_ctx_shop (Some 300) received
      (Some 11) None demo_db)) = Some (Some 5) \<and>
   map_option rc_received_by (returned (set_receipt_status demo_ctx_shop (Some 300) received
      (Some 11) None demo_db)) = Some (Some 14) \<and>
   mark_receipt_received StatusEnum demo_ctx_shop (Some 300) (Some 11) None demo_db
     = Inl (DatatypeMismatch,
          ''column status is of type receipt_status but expression is of type text'')"
  by (simp add: mark_receipt_received_def set_receipt_status_def Let_def returned_def
      unlinked_lines_def)

section \<open>C5: converting a request into an order\<close>

lemma update_rq_fields [simp]:
  "user_roles (update_rq i f s) = user_roles s"
  "rpc_purchase_request_lines (update_rq i f s) = rpc_purchase_request_lines s"
  "purchase_orders (update_rq i f s) = purchase_orders s"
  "purchase_order_lines (update_rq i f s) = purchase_order_lines s"
  "rpc_id_supply (update_rq i f s) = rpc_id_supply s"
  "rpc_purchase_requests (update_rq i f s) = map (\<lambda>r. if rq_id r = i then f r else r) (rpc_purchase_requests s)"
  by (simp_all add: update_rq_def)

lemma select_rq_id: "select_rq s p = Some r \<Longrightarrow> p = Some (rq_id r)"
  by (auto simp: select_rq_def find_Some_iff split: option.splits)

lemma select_rq_update:
  assumes "\<And>r. rq_id (f r) = rq_id r"
  shows "select_rq (update_rq i f s) (Some i) = map_option f (select_rq s (Some i))"
  by (simp add: select_rq_def find_map_update [where key = rq_id, OF assms])

lemma select_rq_cong:
  "rpc_purchase_requests s' = rpc_purchase_requests s \<Longrightarrow> select_rq s' p = select_rq s p"
  by (cases p) (simp_all add: select_rq_def)

lemma map_snd_zip_gen:
  "length xs = length ys \<Longrightarrow> map (\<lambda>x. g (snd x)) (zip xs ys) = map g ys"
  by (induction xs ys rule: list_induct2) simp_all

lemma copied_sources:
  "map ol_source_pr_line_id (map (copy_line c po) (zip [n ..< n + length ls] ls))
     = map (\<lambda>l. Some (ln_id l)) ls"
  using map_snd_zip_gen [of "[n ..< n + length ls]" ls "\<lambda>l. Some (ln_id l)"]
  by (simp add: copy_line_def o_def)

lemma copied_po_id:
  "filter (\<lambda>l. ol_po_id l = po) (map (copy_line c po) xs) = map (copy_line c po) xs"
  by (induction xs) (simp_all add: copy_line_def)

text \<open>What a successful conversion did, read off the function.\<close>

lemma convert_effect:
  assumes "rpc_pr_convert_to_po c p vd sh nt s = Inr (po, s')"
  shows "\<exists>pr u. select_rq s p = Some pr \<and> auth_uid c = Some u \<and>
           (has_role s u ''purchasing_admin'' \<or> has_role s u ''purchasing_approver'') \<and>
           rq_status pr = approved \<and> rq_po_id pr = None \<and> po = rpc_id_supply s \<and>
           s' = update_rq (rq_id pr)
                  (\<lambda>r. r\<lparr>rq_po_id := Some po, rq_converted_at := Some (now c),
                          rq_converted_by := Some u, rq_updated_at := now c\<rparr>)
                  (s\<lparr>purchase_orders := purchase_orders s @
                        [\<lparr>o_id = po, o_vendor_id = the vd, o_ship_to = sh, o_notes = nt,
                          o_status = po_draft, o_source_pr_id = Some (rq_id pr), o_created_by = u,
                          o_created_at = now c, o_updated_at = now c\<rparr>],
                      purchase_order_lines := purchase_order_lines s @
                        map (copy_line c po)
                          (zip [Suc po ..< Suc po + length (pr_lines_of s (rq_id pr))]
                             (pr_lines_of s (rq_id pr))),
                      rpc_id_supply := Suc po + length (pr_lines_of s (rq_id pr))\<rparr>)"
  using assms
  by (auto simp: rpc_pr_convert_to_po_def Let_def split: option.splits if_splits)

lemma convert_twice_conflicts:
  assumes "rpc_pr_convert_to_po c p vd sh nt s = Inr (po, s')"
    and "auth_uid c2 = auth_uid c"
  shows "rpc_pr_convert_to_po c2 p vd2 sh2 nt2 s' = Inl (ConflictError, ''PR already converted to PO'')"
proof -
  from convert_effect [OF assms(1)] obtain pr u f s1 where
    e: "select_rq s p = Some pr" "auth_uid c = Some u"
       "has_role s u ''purchasing_admin'' \<or> has_role s u ''purchasing_approver''"
       "rq_status pr = approved"
    and f: "f = (\<lambda>r. r\<lparr>rq_po_id := Some po, rq_converted_at := Some (now c),
                          rq_converted_by := Some u, rq_updated_at := now c\<rparr>)"
    and s': "s' = update_rq (rq_id pr) f s1"
    and s1: "rpc_purchase_requests s1 = rpc_purchase_requests s" "user_roles s1 = user_roles s"
    by (auto simp: )
  have p: "p = Some (rq_id pr)" using e(1) by (rule select_rq_id)
  have "select_rq s1 (Some (rq_id pr)) = Some pr"
    using e(1) p select_rq_cong [OF s1(1)] by simp
  then have sel: "select_rq s' p = Some (f pr)"
    unfolding s' p by (simp add: select_rq_update f)
  have roles: "has_role s' u ''purchasing_admin'' \<or> has_role s' u ''purchasing_approver''"
    using e(3) s1(2) by (simp add: has_role_def s')
  show ?thesis
    using sel roles e(2,4) assms(2)
    by (simp add: rpc_pr_convert_to_po_def f)
qed

lemma convert_copies_lines:
  assumes "rpc_pr_convert_to_po c p vd sh nt s = Inr (po, s')"
    and "select_rq s p = Some pr" and "po_ids_fresh s"
  shows "pr_lines_of s' (rq_id pr) = pr_lines_of s (rq_id pr)"
    and "length (po_lines_of s' po) = length (pr_lines_of s (rq_id pr))"
    and "map ol_source_pr_line_id (po_lines_of s' po)
           = map (\<lambda>l. Some (ln_id l)) (pr_lines_of s (rq_id pr))"
proof -
  from convert_effect [OF assms(1)] assms(2)
  have po: "po = rpc_id_supply s"
    and lines: "purchase_order_lines s' = purchase_order_lines s @
                 map (copy_line c po)
                   (zip [Suc po ..< Suc po + length (pr_lines_of s (rq_id pr))]
                      (pr_lines_of s (rq_id pr)))"
    and same: "rpc_purchase_request_lines s' = rpc_purchase_request_lines s"
    by auto
  have old: "filter (\<lambda>l. ol_po_id l = po) (purchase_order_lines s) = []"
    using assms(3) po by (auto simp: po_ids_fresh_def list_all_iff filter_empty_conv)
  have new: "po_lines_of s' po = map (copy_line c po)
                   (zip [Suc po ..< Suc po + length (pr_lines_of s (rq_id pr))]
                      (pr_lines_of s (rq_id pr)))"
    by (simp add: po_lines_of_def lines old copied_po_id)
  show "pr_lines_of s' (rq_id pr) = pr_lines_of s (rq_id pr)"
    by (simp add: pr_lines_of_def same)
  have src: "map ol_source_pr_line_id (po_lines_of s' po)
           = map (\<lambda>l. Some (ln_id l)) (pr_lines_of s (rq_id pr))"
    unfolding new by (rule copied_sources)
  then show "map ol_source_pr_line_id (po_lines_of s' po)
           = map (\<lambda>l. Some (ln_id l)) (pr_lines_of s (rq_id pr))" .
  show "length (po_lines_of s' po) = length (pr_lines_of s (rq_id pr))"
    using map_eq_imp_length_eq [OF src] .
qed

lemma copied_content:
  "map po_line_content (map (copy_line c po) (zip [n ..< n + length ls] ls))
     = map pr_line_content ls"
  using map_snd_zip_gen [of "[n ..< n + length ls]" ls pr_line_content]
  by (simp add: copy_line_def o_def po_line_content_def pr_line_content_def)

lemma convert_copies_content:
  assumes "rpc_pr_convert_to_po c p vd sh nt s = Inr (po, s')"
    and "select_rq s p = Some pr" and "po_ids_fresh s"
  shows "map po_line_content (po_lines_of s' po) = map pr_line_content (pr_lines_of s (rq_id pr))"
proof -
  from convert_effect [OF assms(1)] assms(2)
  have po: "po = rpc_id_supply s"
    and lines: "purchase_order_lines s' = purchase_order_lines s @
                 map (copy_line c po)
                   (zip [Suc po ..< Suc po + length (pr_lines_of s (rq_id pr))]
                      (pr_lines_of s (rq_id pr)))"
    by auto
  have old: "filter (\<lambda>l. ol_po_id l = po) (purchase_order_lines s) = []"
    using assms(3) po by (auto simp: po_ids_fresh_def list_all_iff filter_empty_conv)
  have new: "po_lines_of s' po = map (copy_line c po)
                   (zip [Suc po ..< Suc po + length (pr_lines_of s (rq_id pr))]
                      (pr_lines_of s (rq_id pr)))"
    by (simp add: po_lines_of_def lines old copied_po_id)
  show ?thesis
    unfolding new by (rule copied_content)
qed

text \<open>The order a conversion inserts, and the link it writes into the request.\<close>

lemma convert_creates_order:
  assumes "rpc_pr_convert_to_po c p vd sh nt s = Inr (po, s')"
    and "select_rq s p = Some pr"
  shows "orders_of_request s (rq_id pr) = []"
    and "\<exists>ord. purchase_orders s' = purchase_orders s @ [ord] \<and>
           orders_of_request s' (rq_id pr) = [ord] \<and> o_id ord = po \<and>
           o_source_pr_id ord = Some (rq_id pr) \<and> o_status ord = po_draft \<and>
           Some (o_vendor_id ord) = vd \<and> Some (o_created_by ord) = auth_uid c"
    and "\<exists>pr'. select_rq s' p = Some pr' \<and> rq_po_id pr' = Some po \<and> rq_status pr' = approved \<and>
           rq_converted_by pr' = auth_uid c"
proof -
  have p: "p = Some (rq_id pr)" using assms(2) by (rule select_rq_id)
  have none: "Some (rq_id pr) \<notin> set (map o_source_pr_id (purchase_orders s))"
    using assms
    by (auto simp: rpc_pr_convert_to_po_def Let_def split: option.splits if_splits)
  then show empty: "orders_of_request s (rq_id pr) = []"
    by (force simp: orders_of_request_def filter_empty_conv)
  from convert_effect [OF assms(1)] assms(2) obtain u where
    u: "auth_uid c = Some u" "rq_status pr = approved" "vd \<noteq> None"
    and s': "s' = update_rq (rq_id pr)
                  (\<lambda>r. r\<lparr>rq_po_id := Some po, rq_converted_at := Some (now c),
                          rq_converted_by := Some u, rq_updated_at := now c\<rparr>)
                  (s\<lparr>purchase_orders := purchase_orders s @
                        [\<lparr>o_id = po, o_vendor_id = the vd, o_ship_to = sh, o_notes = nt,
                          o_status = po_draft, o_source_pr_id = Some (rq_id pr), o_created_by = u,
                          o_created_at = now c, o_updated_at = now c\<rparr>],
                      purchase_order_lines := purchase_order_lines s @
                        map (copy_line c po)
                          (zip [Suc po ..< Suc po + length (pr_lines_of s (rq_id pr))]
                             (pr_lines_of s (rq_id pr))),
                      rpc_id_supply := Suc po + length (pr_lines_of s (rq_id pr))\<rparr>)"
    using assms(1)
    by (auto simp: rpc_pr_convert_to_po_def Let_def split: option.splits if_splits)
  show "\<exists>ord. purchase_orders s' = purchase_orders s @ [ord] \<and>
           orders_of_request s' (rq_id pr) = [ord] \<and> o_id ord = po \<and>
           o_source_pr_id ord = Some (rq_id pr) \<and> o_status ord = po_draft \<and>
           Some (o_vendor_id ord) = vd \<and> Some (o_created_by ord) = auth_uid c"
    using empty u by (auto simp: s' orders_of_request_def)
  have "select_rq (s\<lparr>purchase_orders := purchase_orders s @
                        [\<lparr>o_id = po, o_vendor_id = the vd, o_ship_to = sh, o_notes = nt,
                          o_status = po_draft, o_source_pr_id = Some (rq_id pr), o_created_by = u,
                          o_created_at = now c, o_updated_at = now c\<rparr>],
                      purchase_order_lines := purchase_order_lines s @
                        map (copy_line c po)
                          (zip [Suc po ..< Suc po + length (pr_lines_of s (rq_id pr))]
                             (pr_lines_of s (rq_id pr))),
                      rpc_id_supply := Suc po + length (pr_lines_of s (rq_id pr))\<rparr>)
            (Some (rq_id pr)) = Some pr"
    using assms(2) p by (simp add: select_rq_def)
  then show "\<exists>pr'. select_rq s' p = Some pr' \<and> rq_po_id pr' = Some po \<and> rq_status pr' = approved \<and>
           rq_converted_by pr' = auth_uid c"
    using u by (simp add: s' p select_rq_update)
qed

text \<open>
  C5. A conversion succeeds only for a request that is approved and has no order yet.
  It inserts one draft order whose \<open>source_pr_id\<close> is the request, the only order
  with that source, and writes the order's id into the request. After it, the same
  caller converting the same request again gets the conflict
  \<open>PR already converted to PO\<close>. The new order has as many lines as the request, in the
  same order, each a copy of its request line with \<open>source_pr_line_id\<close> set to that
  line's id.
\<close>

theorem convert_to_po_once_with_all_lines:
  assumes "rpc_pr_convert_to_po c p vd sh nt s = Inr (po, s')"
    and "select_rq s p = Some pr" and "po_ids_fresh s"
  shows "rq_status pr = approved \<and> rq_po_id pr = None \<and>
         orders_of_request s (rq_id pr) = [] \<and>
         (\<exists>ord. purchase_orders s' = purchase_orders s @ [ord] \<and>
              orders_of_request s' (rq_id pr) = [ord] \<and> o_id ord = po \<and>
              o_source_pr_id ord = Some (rq_id pr) \<and> o_status ord = po_draft \<and>
              Some (o_vendor_id ord) = vd \<and> Some (o_created_by ord) = auth_uid c) \<and>
         (\<exists>pr'. select_rq s' p = Some pr' \<and> rq_po_id pr' = Some po \<and> rq_status pr' = approved \<and>
              rq_converted_by pr' = auth_uid c) \<and>
         (auth_uid c2 = auth_uid c \<longrightarrow>
            rpc_pr_convert_to_po c2 p vd2 sh2 nt2 s' = Inl (ConflictError, ''PR already converted to PO'')) \<and>
         length (po_lines_of s' po) = length (pr_lines_of s (rq_id pr)) \<and>
         pr_lines_of s' (rq_id pr) = pr_lines_of s (rq_id pr) \<and>
         map ol_source_pr_line_id (po_lines_of s' po) = map (\<lambda>l. Some (ln_id l)) (pr_lines_of s (rq_id pr)) \<and>
         map po_line_content (po_lines_of s' po) = map pr_line_content (pr_lines_of s (rq_id pr))"
proof -
  have "rq_status pr = approved \<and> rq_po_id pr = None"
    using convert_effect [OF assms(1)] assms(2) by auto
  then show ?thesis
    using convert_creates_order [OF assms(1,2)] convert_twice_conflicts [OF assms(1)]
      convert_copies_lines [OF assms] convert_copies_content [OF assms]
    by simp
qed

lemma demo_rpc_tables [simp]:
  "user_roles demo_rpc_db = [(21, ''purchasing_approver'')]"
  "purchase_orders demo_rpc_db = []"
  "purchase_order_lines demo_rpc_db = []"
  "rpc_id_supply demo_rpc_db = 700"
  by (simp_all add: demo_rpc_db_def)

theorem convert_to_po_once_with_all_lines_witness:
  "select_rq demo_rpc_db (Some 500) = Some demo_rq \<and>
   po_ids_fresh demo_rpc_db \<and>
   length (pr_lines_of demo_rpc_db 500) = 2 \<and>
   (\<exists>s'. rpc_pr_convert_to_po demo_ctx_rpc (Some 500) (Some 30) None None demo_rpc_db = Inr (700, s') \<and>
      rpc_pr_convert_to_po demo_ctx_rpc (Some 500) (Some 30) None None s'
        = Inl (ConflictError, ''PR already converted to PO'') \<and>
      (\<exists>ord. orders_of_request s' 500 = [ord] \<and> o_id ord = 700 \<and>
           o_source_pr_id ord = Some 500 \<and> o_status ord = po_draft) \<and>
      (\<exists>pr'. select_rq s' (Some 500) = Some pr' \<and> rq_po_id pr' = Some 700) \<and>
      length (po_lines_of s' 700) = 2 \<and>
      map ol_source_pr_line_id (po_lines_of s' 700) = [Some 601, Some 602] \<and>
      map po_line_content (po_lines_of s' 700)
        = [(''rebar'', 40, Some ''ea'', 12, None), (''tie wire'', 5, None, 7, None)])"
proof -
  have h2: "select_rq demo_rpc_db (Some 500) = Some demo_rq"
    by (simp add: select_rq_def demo_rpc_db_def demo_rq_def)
  have h3: "po_ids_fresh demo_rpc_db"
    by (simp add: po_ids_fresh_def)
  have id: "rq_id demo_rq = 500" "rq_status demo_rq = approved" "rq_po_id demo_rq = None"
    by (simp_all add: demo_rq_def)
  have ls: "pr_lines_of demo_rpc_db 500 =
     [\<lparr>ln_id = 601, ln_pr_id = 500, ln_item_name = ''rebar'', ln_qty = 40, ln_unit = Some ''ea'',
          ln_unit_cost = 12, ln_notes = None\<rparr>,
         \<lparr>ln_id = 602, ln_pr_id = 500, ln_item_name = ''tie wire'', ln_qty = 5, ln_unit = None,
          ln_unit_cost = 7, ln_notes = None\<rparr>]"
    by (simp add: pr_lines_of_def demo_rpc_db_def)
  have au: "auth_uid demo_ctx_rpc = Some 21"
    by (simp add: demo_ctx_rpc_def)
  obtain s' where run:
    "rpc_pr_convert_to_po demo_ctx_rpc (Some 500) (Some 30) None None demo_rpc_db = Inr (700, s')"
    by (simp add: rpc_pr_convert_to_po_def Let_def ls has_role_def h2 id au)
  show ?thesis
    using convert_to_po_once_with_all_lines [OF run h2 h3, of demo_ctx_rpc "Some 30" None None]
      run h2 h3 id ls
    by (auto simp: pr_line_content_def)
qed

section \<open>C6: receipt coverage\<close>

lemma map_filter_Some: "List.map_filter id (map (\<lambda>x. Some (f x)) xs) = map f xs"
  by (induction xs) (simp_all add: List.map_filter_simps)

lemma sql_sum_Some: "coalesce (sql_sum (map (\<lambda>x. Some (f x)) xs)) 0 = sum_list (map f xs)"
  by (cases "map f xs") (simp_all add: sql_sum_def map_filter_Some coalesce_def)

lemma filter_key_distinct:
  assumes "distinct (map key xs)"
  shows "filter (\<lambda>r. key r = i) xs = (case find (\<lambda>r. key r = i) xs of None \<Rightarrow> [] | Some r \<Rightarrow> [r])"
  using assms
proof (induction xs)
  case Nil
  then show ?case by simp
next
  case (Cons x xs)
  show ?case
  proof (cases "key x = i")
    case True
    with Cons.prems have "i \<notin> key ` set xs"
      by auto
    then have "filter (\<lambda>r. key r = i) xs = []"
      by (auto simp: filter_empty_conv)
    with True show ?thesis by simp
  next
    case False
    with Cons show ?thesis by simp
  qed
qed

lemma join_one_line:
  assumes "distinct (map rc_id rs)"
  shows "filter not_cancelled
           (case filter (\<lambda>r. rc_id r = rl_receipt_id rl) rs of
              [] \<Rightarrow> [(rl, None)]
            | m # ms \<Rightarrow> map (\<lambda>r. (rl, Some r)) (m # ms))
         = (if (case receipt_status_of rs (rl_receipt_id rl) of
                  None \<Rightarrow> False | Some st \<Rightarrow> st \<noteq> rcancelled)
            then [(rl, find (\<lambda>r. rc_id r = rl_receipt_id rl) rs)] else [])"
  by (simp add: filter_key_distinct [where key = rc_id, OF assms] not_cancelled_def
      receipt_status_of_def split: option.splits)

lemma join_counted:
  assumes "distinct (map rc_id rs)"
  shows "map fst (filter not_cancelled (coverage_join rls rs pol)) = counted_lines rls rs pol"
proof -
  have "map fst (filter not_cancelled
          (concat (map (\<lambda>rl. case filter (\<lambda>r. rc_id r = rl_receipt_id rl) rs of
                                [] \<Rightarrow> [(rl, None)]
                              | m # ms \<Rightarrow> map (\<lambda>r. (rl, Some r)) (m # ms)) ls)))
        = filter (\<lambda>rl. case receipt_status_of rs (rl_receipt_id rl) of
                          None \<Rightarrow> False | Some st \<Rightarrow> st \<noteq> rcancelled) ls" for ls
  proof (induction ls)
    case Nil
    then show ?case by simp
  next
    case (Cons l ls)
    then show ?case
      using join_one_line [OF assms, of l] by simp
  qed
  then show ?thesis
    by (simp add: coverage_join_def counted_lines_def)
qed

lemma total_is_sum_of_counted:
  assumes "distinct (map rc_id rs)"
  shows "qty_received_total rls rs pol = sum_list (map rl_qty_received (counted_lines rls rs pol))"
proof -
  have "qty_received_total rls rs pol
          = sum_list (map (\<lambda>row. rl_qty_received (fst row))
              (filter not_cancelled (coverage_join rls rs pol)))"
    unfolding qty_received_total_def by (rule sql_sum_Some)
  also have "\<dots> = sum_list (map rl_qty_received (map fst
              (filter not_cancelled (coverage_join rls rs pol))))"
    by (simp add: o_def)
  finally show ?thesis
    by (simp only: join_counted [OF assms])
qed

lemma counted_lines_append:
  "counted_lines (rls @ extra) rs pol = counted_lines rls rs pol @ counted_lines extra rs pol"
  by (simp add: counted_lines_def)

lemma counted_lines_cancelled:
  "list_all (on_cancelled_receipt rs) extra \<Longrightarrow> counted_lines extra rs pol = []"
  by (auto simp: counted_lines_def on_cancelled_receipt_def list_all_iff filter_empty_conv)

text \<open>
  C6, as the code has it. With receipt ids unique, \<open>qty_received_total\<close> of an order
  line is the sum of \<open>qty_received\<close> over the receipt lines linked to it whose receipt
  is not cancelled, so lines on cancelled receipts add nothing;
  \<open>qty_open_remaining\<close> is the maximum of 0 and ordered minus received (a null
  ordered quantity counting as 0); and for a positive ordered quantity the coverage is
  \<open>partial\<close> when \<open>0 < received < ordered\<close> and \<open>received\<close> when
  \<open>received \<ge> ordered\<close>.
\<close>

theorem coverage_of_po_line:
  assumes "distinct (map rc_id rs)"
  shows "qty_received_total rls rs pol = sum_list (map rl_qty_received (counted_lines rls rs pol)) \<and>
         (list_all (on_cancelled_receipt rs) extra \<longrightarrow>
            qty_received_total (rls @ extra) rs pol = qty_received_total rls rs pol) \<and>
         qty_open_remaining rls rs pol
           = max 0 (coalesce (pol_qty pol) 0 - qty_received_total rls rs pol) \<and>
         (0 < coalesce (pol_qty pol) 0 \<longrightarrow>
            (0 < qty_received_total rls rs pol \<and>
             qty_received_total rls rs pol < coalesce (pol_qty pol) 0 \<longrightarrow>
               receipt_coverage rls rs pol = ''partial'') \<and>
            (coalesce (pol_qty pol) 0 \<le> qty_received_total rls rs pol \<longrightarrow>
               receipt_coverage rls rs pol = ''received''))"
proof -
  have "qty_received_total (rls @ extra) rs pol = qty_received_total rls rs pol"
    if "list_all (on_cancelled_receipt rs) extra"
    using that
    by (simp add: total_is_sum_of_counted [OF assms] counted_lines_append counted_lines_cancelled)
  then show ?thesis
    using total_is_sum_of_counted [OF assms, of rls pol]
    by (auto simp: qty_open_remaining_def receipt_coverage_def max_def)
qed

lemma cov_receipts_distinct: "distinct (map rc_id cov_receipts)"
  by (simp add: cov_receipts_def)

lemma cov_status [simp]:
  "receipt_status_of cov_receipts 300 = Some received"
  "receipt_status_of cov_receipts 310 = Some rcancelled"
  by (simp_all add: receipt_status_of_def cov_receipts_def)

lemma cov_line_fields [simp]:
  "rl_receipt_id (cov_line i rc q) = rc"
  "rl_purchase_order_line_id (cov_line i rc q) = Some 800"
  "rl_qty_received (cov_line i rc q) = q"
  by (simp_all add: cov_line_def)

lemma cov_pol_fields [simp]: "pol_id (cov_pol q) = 800" "pol_qty (cov_pol q) = q"
  by (simp_all add: cov_pol_def)

text \<open>
  The instances of the claim: ordered 10 with one line of 4 is partial with 6 open; a
  second line of 6 makes it received with 0 open; a line of 9 on the cancelled receipt
  310 changes nothing.
\<close>

theorem coverage_of_po_line_witness:
  "distinct (map rc_id cov_receipts) \<and>
   list_all (on_cancelled_receipt cov_receipts) [cov_line 403 310 9] \<and>
   qty_received_total [cov_line 401 300 4] cov_receipts (cov_pol (Some 10)) = 4 \<and>
   qty_open_remaining [cov_line 401 300 4] cov_receipts (cov_pol (Some 10)) = 6 \<and>
   receipt_coverage [cov_line 401 300 4] cov_receipts (cov_pol (Some 10)) = ''partial'' \<and>
   qty_received_total [cov_line 401 300 4, cov_line 402 300 6] cov_receipts (cov_pol (Some 10)) = 10 \<and>
   qty_open_remaining [cov_line 401 300 4, cov_line 402 300 6] cov_receipts (cov_pol (Some 10)) = 0 \<and>
   receipt_coverage [cov_line 401 300 4, cov_line 402 300 6] cov_receipts (cov_pol (Some 10))
     = ''received'' \<and>
   qty_received_total ([cov_line 401 300 4] @ [cov_line 403 310 9]) cov_receipts (cov_pol (Some 10)) = 4"
proof -
  have c: "list_all (on_cancelled_receipt cov_receipts) [cov_line 403 310 9]"
    by (simp add: on_cancelled_receipt_def)
  have t1: "qty_received_total [cov_line 401 300 4] cov_receipts (cov_pol (Some 10)) = 4"
    using coverage_of_po_line [OF cov_receipts_distinct, of "[cov_line 401 300 4]" "cov_pol (Some 10)"]
    by (simp add: counted_lines_def)
  have t2: "qty_received_total [cov_line 401 300 4, cov_line 402 300 6] cov_receipts
              (cov_pol (Some 10)) = 10"
    using coverage_of_po_line [OF cov_receipts_distinct,
        of "[cov_line 401 300 4, cov_line 402 300 6]" "cov_pol (Some 10)"]
    by (simp add: counted_lines_def)
  show ?thesis
    using coverage_of_po_line [OF cov_receipts_distinct, of "[cov_line 401 300 4]"
        "cov_pol (Some 10)" "[cov_line 403 310 9]"]
      coverage_of_po_line [OF cov_receipts_distinct,
        of "[cov_line 401 300 4, cov_line 402 300 6]" "cov_pol (Some 10)"]
      c t1 t2 cov_receipts_distinct
    by (simp add: coalesce_def)
qed

text \<open>
  The claim as stated fails for an order line with ordered quantity 0: with 5 received
  on a receipt that is not cancelled, received is at least ordered, and the view
  classifies the line as \<open>unknown\<close>, not as \<open>received\<close>.
\<close>

theorem coverage_unknown_counterexample:
  "pol_qty (cov_pol (Some 0)) = Some 0 \<and>
   qty_received_total [cov_line 401 300 5] cov_receipts (cov_pol (Some 0)) = 5 \<and>
   receipt_coverage [cov_line 401 300 5] cov_receipts (cov_pol (Some 0)) = ''unknown''"
  by (simp add: total_is_sum_of_counted [OF cov_receipts_distinct] counted_lines_def
      receipt_coverage_def coalesce_def)

section \<open>C9: year-scoped request numbers\<close>

lemma dec_text_small: "n < 10 \<Longrightarrow> dec_text n = [digit_char n]"
  by (subst dec_text.simps) simp

lemma dec_text_step: "\<not> n < 10 \<Longrightarrow> dec_text n = dec_text (n div 10) @ [digit_char (n mod 10)]"
  by (subst dec_text.simps) simp

lemma dec_text_length_le: "0 < k \<Longrightarrow> n < 10 ^ k \<Longrightarrow> length (dec_text n) \<le> k"
proof (induction k arbitrary: n)
  case 0
  then show ?case by simp
next
  case (Suc k)
  show ?case
  proof (cases "n < 10")
    case True
    then show ?thesis by (simp add: dec_text_small)
  next
    case False
    then have k: "0 < k" using Suc.prems by (cases k) auto
    have "n div 10 < 10 ^ k" using Suc.prems(2) by (simp add: less_mult_imp_div_less mult.commute)
    from Suc.IH [OF k this] False show ?thesis by (simp add: dec_text_step)
  qed
qed

lemma dec_text_length_ge: "10 ^ k \<le> n \<Longrightarrow> Suc k \<le> length (dec_text n)"
proof (induction k arbitrary: n)
  case 0
  then show ?case by (cases "n < 10") (simp_all add: dec_text_small dec_text_step)
next
  case (Suc k)
  have "(10::nat) \<le> 10 ^ Suc k" by simp
  with Suc.prems have big: "\<not> n < 10" by linarith
  have "10 ^ k \<le> n div 10" using Suc.prems by (simp add: less_eq_div_iff_mult_less_eq mult.commute)
  from Suc.IH [OF this] big show ?case by (simp add: dec_text_step)
qed

lemma year_text_length:
  assumes "1000 \<le> y" and "y \<le> 9999"
  shows "length (int_text y) = 4"
proof -
  have "nat y < 10 ^ 4" and "10 ^ 3 \<le> nat y" using assms by simp_all
  from dec_text_length_le [OF _ this(1)] dec_text_length_ge [OF this(2)] assms
  show ?thesis by (simp add: int_text_def)
qed

lemma seq_text_padded:
  assumes "0 \<le> v" and "v \<le> 9999"
  shows "lpad (int_text v) 4 (CHR ''0'')
           = replicate (4 - length (dec_text (nat v))) (CHR ''0'') @ dec_text (nat v)"
    and "length (lpad (int_text v) 4 (CHR ''0'')) = 4"
proof -
  have "nat v < 10 ^ 4" using assms by simp
  from dec_text_length_le [OF _ this] have le: "length (dec_text (nat v)) \<le> 4" by simp
  show "lpad (int_text v) 4 (CHR ''0'')
           = replicate (4 - length (dec_text (nat v))) (CHR ''0'') @ dec_text (nat v)"
    using le assms by (simp add: lpad_def int_text_def)
  then show "length (lpad (int_text v) 4 (CHR ''0'')) = 4"
    using le by simp
qed

lemma find_other_key:
  assumes "\<And>r. key (f r) = key r" and "j \<noteq> i"
  shows "find (\<lambda>r. key r = j) (map (\<lambda>r. if key r = i then f r else r) xs) = find (\<lambda>r. key r = j) xs"
  using assms by (induction xs) auto

lemma find_append_cases:
  "find P (xs @ ys) = (case find P xs of None \<Rightarrow> find P ys | Some x \<Rightarrow> Some x)"
  by (induction xs) simp_all

lemma next_pr_number_effect:
  assumes "next_seq c s \<le> int4_max"
  shows "\<exists>s'. next_pr_number c s
             = Inr (''PR-'' @ int_text (now_year c) @ ''-'' @
                      lpad (int_text (next_seq c s)) 4 (CHR ''0''), s') \<and>
           year_seq s' (now_year c) = Some (next_seq c s) \<and>
           (\<forall>y. y \<noteq> now_year c \<longrightarrow> year_seq s' y = year_seq s y)"
proof (cases "find (\<lambda>r. cnt_year r = now_year c) (pr_number_counters s)")
  case None
  then show ?thesis
    using assms
    by (auto simp: next_pr_number_def Let_def next_seq_def year_seq_def coalesce_def
        find_map_update [where key = cnt_year] find_other_key [where key = cnt_year]
        find_append_cases split: option.splits)
next
  case (Some row)
  then show ?thesis
    using assms
    by (auto simp: next_pr_number_def Let_def next_seq_def year_seq_def coalesce_def
        find_map_update [where key = cnt_year] find_other_key [where key = cnt_year])
qed

lemma digit_val_digit_char: "d < 10 \<Longrightarrow> digit_val (digit_char d) = d"
proof -
  assume "d < 10"
  then have "d \<in> {0, 1, 2, 3, 4, 5, 6, 7, 8, 9}" by auto
  then show ?thesis
    by (auto simp: digit_val_def digit_char_def)
qed

lemma digits_value_snoc: "digits_value (xs @ [ch]) = 10 * digits_value xs + digit_val ch"
  by (simp add: digits_value_def)

lemma digits_value_dec_text: "digits_value (dec_text n) = n"
proof (induction n rule: dec_text.induct)
  case (1 n)
  show ?case
  proof (cases "n < 10")
    case True
    then show ?thesis
      by (simp add: dec_text_small digits_value_def digit_val_digit_char)
  next
    case False
    with 1 show ?thesis
      by (simp add: dec_text_step digits_value_snoc digit_val_digit_char)
  qed
qed

lemma digits_value_zeros: "digits_value (replicate k (CHR ''0'') @ xs) = digits_value xs"
proof -
  have z: "digit_val (CHR ''0'') = 0"
    by (simp add: digit_val_def)
  have "foldl (\<lambda>acc ch. 10 * acc + digit_val ch) 0 (replicate k (CHR ''0'')) = 0"
    by (induction k) (simp_all add: z)
  then show ?thesis by (simp add: digits_value_def)
qed

lemma number_parts:
  assumes "length y = 4"
  shows "number_year (''PR-'' @ y @ ''-'' @ q) = digits_value y"
    and "number_seq (''PR-'' @ y @ ''-'' @ q) = digits_value q"
  using assms by (simp_all add: number_year_def number_seq_def)

text \<open>
  The text of a number whose year has four digits and whose sequence value lies between
  1 and 9999: twelve characters that show the year and the value.
\<close>

lemma pr_number_text:
  assumes "1000 \<le> y" and "y \<le> 9999" and "1 \<le> v" and "v \<le> 9999"
  shows "''PR-'' @ int_text y @ ''-'' @ lpad (int_text v) 4 (CHR ''0'')
           = ''PR-'' @ int_text y @ ''-'' @
               replicate (4 - length (dec_text (nat v))) (CHR ''0'') @ dec_text (nat v)"
    and "length (int_text y) = 4"
    and "length (''PR-'' @ int_text y @ ''-'' @ lpad (int_text v) 4 (CHR ''0'')) = 12"
    and "int (number_year (''PR-'' @ int_text y @ ''-'' @ lpad (int_text v) 4 (CHR ''0''))) = y"
    and "int (number_seq (''PR-'' @ int_text y @ ''-'' @ lpad (int_text v) 4 (CHR ''0''))) = v"
proof -
  have v0: "0 \<le> v" using assms(3) by simp
  note pad = seq_text_padded [OF v0 assms(4)]
  note ylen = year_text_length [OF assms(1,2)]
  show "''PR-'' @ int_text y @ ''-'' @ lpad (int_text v) 4 (CHR ''0'')
           = ''PR-'' @ int_text y @ ''-'' @
               replicate (4 - length (dec_text (nat v))) (CHR ''0'') @ dec_text (nat v)"
    using pad(1) by simp
  show "length (int_text y) = 4" by (rule ylen)
  show "length (''PR-'' @ int_text y @ ''-'' @ lpad (int_text v) 4 (CHR ''0'')) = 12"
    using ylen pad(2) by simp
  have "digits_value (int_text y) = nat y"
    using assms(1) by (simp add: int_text_def digits_value_dec_text)
  then show "int (number_year (''PR-'' @ int_text y @ ''-'' @ lpad (int_text v) 4 (CHR ''0''))) = y"
    using assms(1) number_parts(1) [OF ylen, of "lpad (int_text v) 4 (CHR ''0'')"] by simp
  have "digits_value (lpad (int_text v) 4 (CHR ''0'')) = nat v"
    by (simp add: pad(1) digits_value_zeros digits_value_dec_text)
  then show "int (number_seq (''PR-'' @ int_text y @ ''-'' @ lpad (int_text v) 4 (CHR ''0''))) = v"
    using v0 number_parts(2) [OF ylen, of "lpad (int_text v) 4 (CHR ''0'')"] by simp
qed

text \<open>
  C9. In a year of four digits, while the sequence value to hand out lies between 1 and
  9999, \<open>next_pr_number\<close> returns a number of twelve characters: \<open>PR-\<close>, the four
  digits of the year, a hyphen and the sequence value left-padded with zeros to four
  digits; the number shows the year and that value, and the value is stored for the
  year. A following call in the same year, while the value is below 9999, returns a
  number that shows the value plus one; a following call in another four-digit year
  that has no counter row returns a number that shows the value 1.
\<close>

theorem next_pr_number_year_scoped:
  assumes "1000 \<le> now_year c" and "now_year c \<le> 9999"
    and "1 \<le> next_seq c s" and "next_seq c s \<le> 9999"
  shows "\<exists>n s'. next_pr_number c s = Inr (n, s') \<and>
           n = ''PR-'' @ int_text (now_year c) @ ''-'' @
                 replicate (4 - length (dec_text (nat (next_seq c s)))) (CHR ''0'') @
                 dec_text (nat (next_seq c s)) \<and>
           length (int_text (now_year c)) = 4 \<and>
           length n = 12 \<and>
           int (number_year n) = now_year c \<and>
           int (number_seq n) = next_seq c s \<and>
           year_seq s' (now_year c) = Some (next_seq c s) \<and>
           (now_year c2 = now_year c \<and> next_seq c s < 9999 \<longrightarrow>
              (\<exists>n2 s2. next_pr_number c2 s' = Inr (n2, s2) \<and> length n2 = 12 \<and>
                 number_year n2 = number_year n \<and> number_seq n2 = number_seq n + 1)) \<and>
           (now_year c2 \<noteq> now_year c \<and> 1000 \<le> now_year c2 \<and> now_year c2 \<le> 9999 \<and>
            year_seq s (now_year c2) = None \<longrightarrow>
              (\<exists>n2 s2. next_pr_number c2 s' = Inr (n2, s2) \<and> length n2 = 12 \<and>
                 int (number_year n2) = now_year c2 \<and> number_seq n2 = 1))"
proof -
  let ?shape = "\<lambda>y v. ''PR-'' @ int_text y @ ''-'' @ lpad (int_text v) 4 (CHR ''0'')"
  let ?n = "?shape (now_year c) (next_seq c s)"
  have small: "next_seq c s \<le> int4_max"
    using assms(4) by (simp add: int4_max_def)
  from next_pr_number_effect [OF small] obtain s' where
    run: "next_pr_number c s = Inr (?n, s')"
    and here: "year_seq s' (now_year c) = Some (next_seq c s)"
    and other: "\<forall>y. y \<noteq> now_year c \<longrightarrow> year_seq s' y = year_seq s y"
    by blast
  note shape = pr_number_text [OF assms]
  have same: "\<exists>n2 s2. next_pr_number c2 s' = Inr (n2, s2) \<and> length n2 = 12 \<and>
                 number_year n2 = number_year ?n \<and> number_seq n2 = number_seq ?n + 1"
    if y2: "now_year c2 = now_year c" and below: "next_seq c s < 9999"
  proof -
    have v2: "next_seq c2 s' = next_seq c s + 1"
      using y2 here by (simp add: next_seq_def coalesce_def)
    have r2: "1000 \<le> now_year c2" "now_year c2 \<le> 9999" "1 \<le> next_seq c2 s'" "next_seq c2 s' \<le> 9999"
      using assms y2 v2 below by simp_all
    have "next_seq c2 s' \<le> int4_max"
      using r2(4) by (simp add: int4_max_def)
    from next_pr_number_effect [OF this] obtain s2 where
      run2: "next_pr_number c2 s' = Inr (?shape (now_year c2) (next_seq c2 s'), s2)"
      by blast
    note shape2 = pr_number_text [OF r2]
    have "int (number_year (?shape (now_year c2) (next_seq c2 s'))) = int (number_year ?n)"
      using shape2(4) shape(4) y2 by simp
    moreover have "int (number_seq (?shape (now_year c2) (next_seq c2 s'))) = int (number_seq ?n + 1)"
      using shape2(5) shape(5) v2 by simp
    ultimately show ?thesis
      using run2 shape2(3) by (metis of_nat_eq_iff)
  qed
  have fresh: "\<exists>n2 s2. next_pr_number c2 s' = Inr (n2, s2) \<and> length n2 = 12 \<and>
                 int (number_year n2) = now_year c2 \<and> number_seq n2 = 1"
    if y2: "now_year c2 \<noteq> now_year c" and lo: "1000 \<le> now_year c2" and hi: "now_year c2 \<le> 9999"
      and none: "year_seq s (now_year c2) = None"
  proof -
    have v2: "next_seq c2 s' = 1"
      using y2 none other by (simp add: next_seq_def coalesce_def)
    have r2: "1000 \<le> now_year c2" "now_year c2 \<le> 9999" "1 \<le> next_seq c2 s'" "next_seq c2 s' \<le> 9999"
      using lo hi v2 by simp_all
    have "next_seq c2 s' \<le> int4_max"
      using r2(4) by (simp add: int4_max_def)
    from next_pr_number_effect [OF this] obtain s2 where
      run2: "next_pr_number c2 s' = Inr (?shape (now_year c2) (next_seq c2 s'), s2)"
      by blast
    note shape2 = pr_number_text [OF r2]
    have "int (number_seq (?shape (now_year c2) (next_seq c2 s'))) = int 1"
      using shape2(5) v2 by simp
    then have "number_seq (?shape (now_year c2) (next_seq c2 s')) = 1"
      by (metis of_nat_eq_iff)
    then show ?thesis
      using run2 shape2(3) shape2(4) by blast
  qed
  have "next_pr_number c s = Inr (?n, s') \<and>
           ?n = ''PR-'' @ int_text (now_year c) @ ''-'' @
                 replicate (4 - length (dec_text (nat (next_seq c s)))) (CHR ''0'') @
                 dec_text (nat (next_seq c s)) \<and>
           length (int_text (now_year c)) = 4 \<and>
           length ?n = 12 \<and>
           int (number_year ?n) = now_year c \<and>
           int (number_seq ?n) = next_seq c s \<and>
           year_seq s' (now_year c) = Some (next_seq c s) \<and>
           (now_year c2 = now_year c \<and> next_seq c s < 9999 \<longrightarrow>
              (\<exists>n2 s2. next_pr_number c2 s' = Inr (n2, s2) \<and> length n2 = 12 \<and>
                 number_year n2 = number_year ?n \<and> number_seq n2 = number_seq ?n + 1)) \<and>
           (now_year c2 \<noteq> now_year c \<and> 1000 \<le> now_year c2 \<and> now_year c2 \<le> 9999 \<and>
            year_seq s (now_year c2) = None \<longrightarrow>
              (\<exists>n2 s2. next_pr_number c2 s' = Inr (n2, s2) \<and> length n2 = 12 \<and>
                 int (number_year n2) = now_year c2 \<and> number_seq n2 = 1))"
    using run shape(1) shape(2) shape(3) shape(4) shape(5) here same fresh by blast
  then show ?thesis
    by (intro exI [of _ ?n] exI [of _ s'])
qed

lemma demo_next_seq: "next_seq demo_ctx demo_db = 7"
  by (simp add: next_seq_def year_seq_def coalesce_def)

lemma text_2024: "int_text 2024 = ''2024''"
  by (simp add: int_text_def dec_text_step dec_text_small digit_char_def)

lemma text_2025: "int_text 2025 = ''2025''"
  by (simp add: int_text_def dec_text_step dec_text_small digit_char_def)

lemma text_7: "replicate (4 - length (dec_text 7)) (CHR ''0'') @ dec_text 7 = ''0007''"
proof -
  have "dec_text 7 = ''7''"
    by (simp add: dec_text_small digit_char_def)
  then show ?thesis
    by (simp add: eval_nat_numeral)
qed

theorem next_pr_number_year_scoped_witness:
  "1000 \<le> now_year demo_ctx \<and> now_year demo_ctx \<le> 9999 \<and>
   1 \<le> next_seq demo_ctx demo_db \<and> next_seq demo_ctx demo_db \<le> 9999 \<and>
   now_year demo_ctx = 2024 \<and> next_seq demo_ctx demo_db = 7 \<and>
   now_year demo_ctx_2025 = 2025 \<and> year_seq demo_db 2025 = None \<and>
   (\<exists>s'. next_pr_number demo_ctx demo_db = Inr (''PR-2024-0007'', s') \<and>
          number_year ''PR-2024-0007'' = 2024 \<and> number_seq ''PR-2024-0007'' = 7 \<and>
          year_seq s' 2024 = Some 7 \<and>
          (\<exists>n2 s2. next_pr_number demo_ctx s' = Inr (n2, s2) \<and> length n2 = 12 \<and>
                    number_year n2 = 2024 \<and> number_seq n2 = 8) \<and>
          (\<exists>n2 s2. next_pr_number demo_ctx_2025 s' = Inr (n2, s2) \<and> length n2 = 12 \<and>
                    number_year n2 = 2025 \<and> number_seq n2 = 1))"
proof -
  have h: "1000 \<le> now_year demo_ctx" "now_year demo_ctx \<le> 9999"
    "1 \<le> next_seq demo_ctx demo_db" "next_seq demo_ctx demo_db \<le> 9999"
    by (simp_all add: demo_next_seq)
  have y: "year_seq demo_db 2025 = None"
    by (simp add: year_seq_def)
  have c2: "now_year demo_ctx_2025 = 2025"
    by (simp add: demo_ctx_2025_def)
  have shown: "number_year ''PR-2024-0007'' = 2024" "number_seq ''PR-2024-0007'' = 7"
    by (simp_all add: number_year_def number_seq_def digits_value_def digit_val_def)
  from next_pr_number_year_scoped [OF h, of demo_ctx] obtain n s' where
    run: "next_pr_number demo_ctx demo_db = Inr (n, s')"
    and n: "n = ''PR-2024-0007''"
    and stored: "year_seq s' 2024 = Some 7"
    and nxt: "\<exists>n2 s2. next_pr_number demo_ctx s' = Inr (n2, s2) \<and> length n2 = 12 \<and>
                 number_year n2 = number_year n \<and> number_seq n2 = number_seq n + 1"
    by (auto simp: demo_next_seq text_2024 text_7)
  from next_pr_number_year_scoped [OF h, of demo_ctx_2025] run obtain
    n3 s3 where "next_pr_number demo_ctx_2025 s' = Inr (n3, s3)" "length n3 = 12"
      "int (number_year n3) = 2025" "number_seq n3 = 1"
    using y c2 by auto
  then have other: "\<exists>n2 s2. next_pr_number demo_ctx_2025 s' = Inr (n2, s2) \<and> length n2 = 12 \<and>
                    number_year n2 = 2025 \<and> number_seq n2 = 1"
    by auto
  show ?thesis
    using h c2 y run n stored nxt other shown by (simp add: demo_next_seq)
qed

text \<open>
  Beyond 9999 \<open>lpad\<close> keeps the first four characters of the value: the call that
  hands out 10000 returns the number that the call handing out 1000 returned, so the
  numbers of one year are neither increasing nor distinct, and the sequence part does
  not show the value.
\<close>

lemma text_1000: "lpad (int_text 1000) 4 (CHR ''0'') = ''1000''"
  by (simp add: lpad_def int_text_def dec_text_step dec_text_small digit_char_def)

lemma text_10000: "lpad (int_text 10000) 4 (CHR ''0'') = ''1000''"
  by (simp add: lpad_def int_text_def dec_text_step dec_text_small digit_char_def)

lemma demo_db_at_next: "next_pr_number demo_ctx (demo_db_at k)
    = (if int4_max < k + 1 then Inl (ValidationError, ''integer out of range'')
       else Inr (''PR-2024-'' @ lpad (int_text (k + 1)) 4 (CHR ''0''),
                 demo_db_at (k + 1)\<lparr>pr_number_counters :=
                   [\<lparr>cnt_year = 2024, cnt_last_seq = k + 1, cnt_updated_at = 9\<rparr>]\<rparr>))"
  by (simp add: next_pr_number_def Let_def demo_db_at_def text_2024)

theorem next_pr_number_truncates_counterexample:
  "next_seq demo_ctx (demo_db_at 999) = 1000 \<and>
   next_seq demo_ctx (demo_db_at 9999) = 10000 \<and>
   returned (next_pr_number demo_ctx (demo_db_at 999)) = Some ''PR-2024-1000'' \<and>
   returned (next_pr_number demo_ctx (demo_db_at 9999)) = Some ''PR-2024-1000'' \<and>
   map_option number_seq (returned (next_pr_number demo_ctx (demo_db_at 9999))) = Some 1000"
proof -
  have stored: "next_seq demo_ctx (demo_db_at k) = k + 1" for k
    by (simp add: next_seq_def year_seq_def coalesce_def demo_db_at_def)
  have shown: "number_seq ''PR-2024-1000'' = 1000"
    by (simp add: number_seq_def digits_value_def digit_val_def)
  show ?thesis
    by (simp add: demo_db_at_next int4_max_def text_1000 text_10000 returned_def stored shown)
qed

end
